theory Spec2Isabelle
  imports Main "HOL-Library.Word"
begin

unbundle bit_operations_syntax

section \<open>Data model of \<^verbatim>\<open>riscv/mmu.h\<close>\<close>

text \<open>
  \<^verbatim>\<open>reg_t\<close> is a 64-bit unsigned integer. A host pointer (\<^verbatim>\<open>char*\<close>) is a 64-bit
  address into the host memory, which is a byte array; pointer arithmetic wraps.
\<close>

type_synonym reg_t = "64 word"
type_synonym ptr = "64 word"
type_synonym memory = "ptr \<Rightarrow> 8 word"

definition PGSHIFT :: nat where
  "PGSHIFT = 12"

definition TLB_ENTRIES :: reg_t where
  "TLB_ENTRIES = 256"

definition TLB_CHECK_TRIGGERS :: reg_t where
  "TLB_CHECK_TRIGGERS = push_bit 63 1"

definition ICACHE_ENTRIES :: reg_t where
  "ICACHE_ENTRIES = 1024"

datatype access_type = LOAD | STORE | FETCH

datatype trigger_operation_t = OPERATION_EXECUTE | OPERATION_STORE | OPERATION_LOAD

record trigger_matched_t =
  tm_index :: int
  tm_operation :: trigger_operation_t
  tm_address :: reg_t
  tm_data :: reg_t

text \<open>
  Everything the code throws. \<^verbatim>\<open>null_dereference\<close> stands for the undefined behaviour
  of the places that use \<^verbatim>\<open>proc\<close> without testing it when the MMU was built without a
  processor.
\<close>

datatype trap =
    trap_load_address_misaligned reg_t
  | trap_store_address_misaligned reg_t
  | trap_instruction_access_fault reg_t
  | trap_load_access_fault reg_t
  | trap_store_access_fault reg_t
  | trigger_matched trigger_matched_t
  | null_dereference

text \<open>The integer types the load, store and AMO macros are instantiated at.\<close>

datatype type_t = uint8 | uint16 | uint32 | uint64 | int8 | int16 | int32 | int64

fun sizeof :: "type_t \<Rightarrow> nat" where
  "sizeof uint8 = 1"
| "sizeof uint16 = 2"
| "sizeof uint32 = 4"
| "sizeof uint64 = 8"
| "sizeof int8 = 1"
| "sizeof int16 = 2"
| "sizeof int32 = 4"
| "sizeof int64 = 8"

fun is_signed :: "type_t \<Rightarrow> bool" where
  "is_signed uint8 = False"
| "is_signed uint16 = False"
| "is_signed uint32 = False"
| "is_signed uint64 = False"
| "is_signed int8 = True"
| "is_signed int16 = True"
| "is_signed int32 = True"
| "is_signed int64 = True"

text \<open>
  A value of one of these types is kept as the \<^verbatim>\<open>reg_t\<close> it converts to: the low
  \<^verbatim>\<open>sizeof\<close> bytes, sign extended for the signed types and zero extended otherwise.
\<close>

definition to_reg :: "type_t \<Rightarrow> 64 word \<Rightarrow> reg_t" where
  "to_reg ty v =
     (if is_signed ty then signed_take_bit (8 * sizeof ty - 1) v
      else take_bit (8 * sizeof ty) v)"

subsection \<open>Host memory\<close>

text \<open>The host is little endian: byte \<open>i\<close> of a value lives at \<open>p + i\<close>.\<close>

fun le_val :: "8 word list \<Rightarrow> 64 word" where
  "le_val [] = 0"
| "le_val (b # bs) = ucast b OR push_bit 8 (le_val bs)"

definition read_bytes :: "memory \<Rightarrow> ptr \<Rightarrow> nat \<Rightarrow> 8 word list" where
  "read_bytes m p n = map (\<lambda>i. m (p + of_nat i)) [0..<n]"

definition bytes_of :: "64 word \<Rightarrow> nat \<Rightarrow> 8 word list" where
  "bytes_of v n = map (\<lambda>i. ucast (drop_bit (8 * i) v)) [0..<n]"

fun write_bytes :: "memory \<Rightarrow> ptr \<Rightarrow> 8 word list \<Rightarrow> memory" where
  "write_bytes m p [] = m"
| "write_bytes m p (b # bs) = write_bytes (m(p := b)) (p + 1) bs"

text \<open>\<^verbatim>\<open>*(type_t*)p\<close> as an rvalue, and \<^verbatim>\<open>*(type_t*)p = val\<close>.\<close>

definition deref :: "type_t \<Rightarrow> memory \<Rightarrow> ptr \<Rightarrow> reg_t" where
  "deref ty m p = to_reg ty (le_val (read_bytes m p (sizeof ty)))"

definition assign :: "type_t \<Rightarrow> memory \<Rightarrow> ptr \<Rightarrow> reg_t \<Rightarrow> memory" where
  "assign ty m p v = write_bytes m p (bytes_of v (sizeof ty))"

subsection \<open>The processor, as far as the MMU reads it\<close>

text \<open>
  \<^verbatim>\<open>processor.h\<close> is not part of the sources at hand, so the members the MMU uses are
  fields of a record: \<^verbatim>\<open>trigger_match\<close>, the \<^verbatim>\<open>timing\<close> member of
  \<^verbatim>\<open>state.mcontrol[i]\<close> as a function of \<open>i\<close>, \<^verbatim>\<open>timestamp\<close>, \<^verbatim>\<open>decode_insn\<close>, and the
  registers \<^verbatim>\<open>state.prv\<close>, \<^verbatim>\<open>state.dcsr.cause\<close> and \<^verbatim>\<open>state.mstatus\<close>.
\<close>

record processor_t =
  trigger_match :: "trigger_operation_t \<Rightarrow> reg_t \<Rightarrow> reg_t \<Rightarrow> int"
  mcontrol_timing :: "int \<Rightarrow> nat"
  timestamp :: "64 word"
  decode_insn :: "64 word \<Rightarrow> nat"
  prv :: reg_t
  dcsr_cause :: reg_t
  mstatus :: reg_t

subsection \<open>The state of an MMU\<close>

record insn_fetch_t =
  func :: nat
  insn :: "64 word"

record icache_entry_t =
  tag :: reg_t
  data :: insn_fetch_t

record tlb_t =
  meta :: "nat \<Rightarrow> reg_t"
  tags :: "nat \<Rightarrow> reg_t"
  tag_map :: "reg_t \<rightharpoonup> nat"

record trace_t =
  t_len :: nat
  t_addr :: reg_t
  t_data :: reg_t

text \<open>
  The calls the MMU makes to its collaborators and the writes it makes to host memory,
  in the order they happen. No function below reads this list: it is there so that
  a statement can say which collaborator was called, with what, and in what order.
\<close>

datatype call =
    Call_trigger_match trigger_operation_t reg_t reg_t
  | Call_load_slow_path reg_t nat
  | Call_store_slow_path reg_t nat "8 word list"
  | Call_fetch_slow_path reg_t
  | Call_record nat reg_t reg_t
  | Call_trace reg_t int access_type
  | Mem_write ptr "8 word list"

text \<open>
  The arrays \<^verbatim>\<open>tlb_data\<close>, \<^verbatim>\<open>tlb_insn_tag\<close>, \<^verbatim>\<open>tlb_load_tag\<close>, \<^verbatim>\<open>tlb_store_tag\<close> and
  \<^verbatim>\<open>icache\<close> are functions of the slot number; every index the code computes is
  reduced modulo the array's size first.
\<close>

record mmu_state =
  mem :: memory
  proc :: "processor_t option"
  itlb :: tlb_t
  dtlb :: tlb_t
  icache :: "nat \<Rightarrow> icache_entry_t"
  tlb_data :: "nat \<Rightarrow> ptr"
  tlb_insn_tag :: "nat \<Rightarrow> reg_t"
  tlb_load_tag :: "nat \<Rightarrow> reg_t"
  tlb_store_tag :: "nat \<Rightarrow> reg_t"
  matched_trigger :: "trigger_matched_t option"
  timewarp :: bool
  trace_clks :: "64 word list"
  traces :: "trace_t list"
  calls :: "call list"

text \<open>
  A member function returns its value or the exception it throws, together with the
  state it leaves behind: an exception does not undo what was done before it.
\<close>

type_synonym 'a result = "(trap + 'a) \<times> mmu_state"

definition bind_res :: "'a result \<Rightarrow> ('a \<Rightarrow> mmu_state \<Rightarrow> 'b result) \<Rightarrow> 'b result" where
  "bind_res r k = (case r of (Inl t, s) \<Rightarrow> (Inl t, s) | (Inr v, s) \<Rightarrow> k v s)"

definition log_call :: "call \<Rightarrow> mmu_state \<Rightarrow> mmu_state" where
  "log_call c s = s\<lparr>calls := calls s @ [c]\<rparr>"

subsection \<open>What is declared in the header and defined elsewhere\<close>

text \<open>
  The constants and the \<^verbatim>\<open>get_field\<close> macro of \<^verbatim>\<open>encoding.h\<close>, which is not part of
  the sources at hand, are parameters.
\<close>

record encoding =
  get_field :: "reg_t \<Rightarrow> reg_t \<Rightarrow> reg_t"
  MSTATUS_MPRV :: reg_t
  MSTATUS_MPP :: reg_t
  MSTATUS_VM :: reg_t
  MSTATUS_PUM :: reg_t
  MSTATUS_MXR :: reg_t
  VM_MBARE :: reg_t
  VM_SV32 :: reg_t
  VM_SV39 :: reg_t
  VM_SV48 :: reg_t
  PRV_S :: reg_t
  PRV_M :: reg_t
  PTE_V :: reg_t
  PTE_R :: reg_t
  PTE_W :: reg_t
  PTE_X :: reg_t
  PTE_U :: reg_t
  PTE_D :: reg_t

text \<open>
  The slow paths (\<^verbatim>\<open>mmu.cc\<close>), \<^verbatim>\<open>sim->mem_to_addr\<close>, the memory tracer's
  \<^verbatim>\<open>interested_in_range\<close>, the \<^verbatim>\<open>insn_length\<close> macro and \<^verbatim>\<open>PC_ALIGN\<close> are parameters
  as well. A slow path may change any part of the MMU.
\<close>

record env =
  load_slow_path :: "reg_t \<Rightarrow> nat \<Rightarrow> mmu_state \<Rightarrow> (8 word list) result"
  store_slow_path :: "reg_t \<Rightarrow> nat \<Rightarrow> 8 word list \<Rightarrow> mmu_state \<Rightarrow> unit result"
  fetch_slow_path :: "reg_t \<Rightarrow> mmu_state \<Rightarrow> ptr result"
  mem_to_addr :: "ptr \<Rightarrow> reg_t"
  interested_in_range :: "reg_t \<Rightarrow> reg_t \<Rightarrow> access_type \<Rightarrow> bool"
  insn_length :: "64 word \<Rightarrow> int"
  PC_ALIGN :: reg_t
  enc :: encoding

text \<open>
  Modelled from the spec: \<^verbatim>\<open>record\<close> is declared in the header (line 386) and defined
  in \<^verbatim>\<open>mmu.cc\<close>, which is missing. The specification says it appends \<open>{len, physical
  address, pre-write value}\<close> keyed by the current logical timestamp; the timestamp is
  \<^verbatim>\<open>proc->timestamp\<close> (line 385) and the two deques are \<^verbatim>\<open>trace_clks\<close> and \<^verbatim>\<open>traces\<close>.
\<close>

definition mmu_record :: "nat \<Rightarrow> reg_t \<Rightarrow> reg_t \<Rightarrow> mmu_state \<Rightarrow> unit result" where
  "mmu_record n pa v s =
     (let s1 = log_call (Call_record n pa v) s in
      case proc s1 of
        None \<Rightarrow> (Inl null_dereference, s1)
      | Some p \<Rightarrow>
          (Inr (), s1\<lparr>trace_clks := trace_clks s1 @ [timestamp p],
                       traces := traces s1 @ [\<lparr>t_len = n, t_addr = pa, t_data = v\<rparr>]\<rparr>))"

section \<open>The functions of \<^verbatim>\<open>mmu_t\<close>\<close>

subsection \<open>\<^verbatim>\<open>check_permission\<close>\<close>

text \<open>
  How a statement ends: it falls through to the next one, it returns from the
  function, or it throws. A statement after a \<^verbatim>\<open>return\<close> does not run.
\<close>

datatype outcome = Normal | Return | Throw trap

definition then_stmt :: "outcome \<Rightarrow> outcome \<Rightarrow> outcome" where
  "then_stmt a b = (case a of Normal \<Rightarrow> b | Return \<Rightarrow> Return | Throw t \<Rightarrow> Throw t)"

text \<open>Lines 273 to 328: the statements of \<^verbatim>\<open>check_permission\<close> after its first one.\<close>

definition check_permission_body :: "encoding \<Rightarrow> mmu_state \<Rightarrow> reg_t \<Rightarrow> access_type \<Rightarrow> outcome" where
  "check_permission_body e s vaddr ty =
     (case proc s of
        None \<Rightarrow> Throw null_dereference
      | Some p \<Rightarrow>
          let mode0 = prv p;
              mode1 = (if ty \<noteq> FETCH \<and> dcsr_cause p = 0
                          \<and> get_field e (mstatus p) (MSTATUS_MPRV e) \<noteq> 0
                       then get_field e (mstatus p) (MSTATUS_MPP e) else mode0);
              mode = (if get_field e (mstatus p) (MSTATUS_VM e) = VM_MBARE e
                      then PRV_M e else mode1)
          in if mode = PRV_M e then Return
             else
               let supervisor = (mode = PRV_S e);
                   pum = (get_field e (mstatus p) (MSTATUS_PUM e) \<noteq> 0);
                   mxr = (get_field e (mstatus p) (MSTATUS_MXR e) \<noteq> 0);
                   tlb = (if ty = FETCH then itlb s else dtlb s);
                   vm = get_field e (mstatus p) (MSTATUS_VM e);
                   tag0 = drop_bit PGSHIFT vaddr;
                   tag1 = (if vm = VM_SV32 e then tag0 AND (push_bit 20 1 - 1) else tag0);
                   tag2 = (if vm = VM_SV32 e \<or> vm = VM_SV39 e
                           then tag1 AND (push_bit 27 1 - 1) else tag1);
                   tag3 = (if vm = VM_SV32 e \<or> vm = VM_SV39 e \<or> vm = VM_SV48 e
                           then tag2 AND (push_bit 36 1 - 1) else tag2)
               in (case tag_map tlb tag3 of
                    None \<Rightarrow> Return
                  | Some i \<Rightarrow>
                      let m = meta tlb i;
                          no_priv = (if m AND PTE_U e \<noteq> 0 then supervisor \<and> pum
                                     else \<not> supervisor);
                          no_valid = (m AND PTE_V e = 0
                                      \<or> (m AND PTE_R e = 0 \<and> m AND PTE_W e \<noteq> 0))
                      in (case ty of
                           FETCH \<Rightarrow>
                             if no_priv \<or> no_valid \<or> m AND PTE_X e = 0
                             then Throw (trap_instruction_access_fault vaddr) else Normal
                         | LOAD \<Rightarrow>
                             if no_priv \<or> no_valid
                                \<or> (m AND PTE_R e = 0 \<and> \<not> (mxr \<and> m AND PTE_X e \<noteq> 0))
                             then Throw (trap_load_access_fault vaddr) else Normal
                         | STORE \<Rightarrow>
                             if \<not> no_priv \<and> \<not> no_valid
                                \<and> m AND PTE_W e \<noteq> 0 \<and> m AND PTE_D e = 0
                             then Return
                             else if no_priv \<or> no_valid
                                     \<or> \<not> (m AND PTE_R e \<noteq> 0 \<and> m AND PTE_W e \<noteq> 0)
                             then Throw (trap_store_access_fault vaddr) else Normal)))"

text \<open>Line 272 is \<^verbatim>\<open>return;\<close>, and the rest of the function follows it.\<close>

definition check_permission :: "encoding \<Rightarrow> mmu_state \<Rightarrow> reg_t \<Rightarrow> access_type \<Rightarrow> outcome" where
  "check_permission e s vaddr ty = then_stmt Return (check_permission_body e s vaddr ty)"

text \<open>\<^verbatim>\<open>if (likely(timewarp)) check_permission(addr, type);\<close> in the three callers.\<close>

definition permission_stmt :: "env \<Rightarrow> mmu_state \<Rightarrow> reg_t \<Rightarrow> access_type \<Rightarrow> outcome" where
  "permission_stmt ev s vaddr ty =
     (if timewarp s then check_permission (enc ev) s vaddr ty else Normal)"

subsection \<open>\<^verbatim>\<open>trigger_exception\<close>\<close>

text \<open>
  The result is the pointer the function returns: \<open>None\<close> for \<^verbatim>\<open>NULL\<close>, \<open>Some t\<close> for
  the object made by \<^verbatim>\<open>new\<close>.
\<close>

definition trigger_exception ::
  "trigger_operation_t \<Rightarrow> reg_t \<Rightarrow> reg_t \<Rightarrow> mmu_state \<Rightarrow> (trigger_matched_t option) result" where
  "trigger_exception operation address d s =
     (case proc s of
        None \<Rightarrow> (Inr None, s)
      | Some p \<Rightarrow>
          let s1 = log_call (Call_trigger_match operation address d) s;
              matched = trigger_match p operation address d;
              t = \<lparr>tm_index = matched, tm_operation = operation,
                   tm_address = address, tm_data = d\<rparr>
          in if matched = - 1 then (Inr None, s1)
             else if mcontrol_timing p matched = 0 then (Inl (trigger_matched t), s1)
             else (Inr (Some t), s1))"

subsection \<open>\<^verbatim>\<open>load_func\<close>, \<^verbatim>\<open>store_func\<close>, \<^verbatim>\<open>amo_func\<close>\<close>

definition misaligned :: "type_t \<Rightarrow> reg_t \<Rightarrow> bool" where
  "misaligned ty vaddr = (vaddr AND (of_nat (sizeof ty) - 1) \<noteq> 0)"

definition tlb_slot :: "reg_t \<Rightarrow> nat" where
  "tlb_slot vpn = unat (vpn mod TLB_ENTRIES)"

text \<open>
  For an address \<open>a\<close>: its virtual page number, its slot in the TLB tables, and
  \<^verbatim>\<open>tlb_data[vpn % TLB_ENTRIES] + addr\<close>.
\<close>

abbreviation vpn_of :: "reg_t \<Rightarrow> reg_t" where
  "vpn_of a \<equiv> drop_bit PGSHIFT a"

abbreviation slot_of :: "reg_t \<Rightarrow> nat" where
  "slot_of a \<equiv> tlb_slot (drop_bit PGSHIFT a)"

abbreviation hit_ptr :: "mmu_state \<Rightarrow> reg_t \<Rightarrow> ptr" where
  "hit_ptr s a \<equiv> tlb_data s (tlb_slot (drop_bit PGSHIFT a)) + a"

definition load_func :: "env \<Rightarrow> type_t \<Rightarrow> reg_t \<Rightarrow> mmu_state \<Rightarrow> reg_t result" where
  "load_func ev ty vaddr s =
     (if misaligned ty vaddr then (Inl (trap_load_address_misaligned vaddr), s)
      else
        let vpn = drop_bit PGSHIFT vaddr in
        case permission_stmt ev s vaddr LOAD of
          Throw t \<Rightarrow> (Inl t, s)
        | _ \<Rightarrow>
            if tlb_load_tag s (tlb_slot vpn) = vpn
            then (Inr (deref ty (mem s) (tlb_data s (tlb_slot vpn) + vaddr)), s)
            else if tlb_load_tag s (tlb_slot vpn) = (vpn OR TLB_CHECK_TRIGGERS)
            then
              let d = deref ty (mem s) (tlb_data s (tlb_slot vpn) + vaddr) in
              if matched_trigger s = None
              then
                bind_res (trigger_exception OPERATION_LOAD vaddr d s)
                  (\<lambda>m s1. let s2 = s1\<lparr>matched_trigger := m\<rparr> in
                     case m of
                       Some t \<Rightarrow> (Inl (trigger_matched t), s2)
                     | None \<Rightarrow> (Inr d, s2))
              else (Inr d, s)
            else
              bind_res
                (load_slow_path ev vaddr (sizeof ty)
                   (log_call (Call_load_slow_path vaddr (sizeof ty)) s))
                (\<lambda>bytes s1. (Inr (to_reg ty (le_val (take (sizeof ty) bytes))), s1)))"

text \<open>
  Lines 126 to 129, and again 136 to 139: the pointer is taken from \<^verbatim>\<open>tlb_data\<close>, the
  old value is recorded in time-warp mode, and the new value is written.
\<close>

definition store_at :: "env \<Rightarrow> type_t \<Rightarrow> ptr \<Rightarrow> reg_t \<Rightarrow> mmu_state \<Rightarrow> unit result" where
  "store_at ev ty p v s =
     bind_res
       (if timewarp s
        then mmu_record (sizeof ty) (mem_to_addr ev p) (deref ty (mem s) p) s
        else (Inr (), s))
       (\<lambda>_ s1. (Inr (), log_call (Mem_write p (bytes_of v (sizeof ty)))
                          (s1\<lparr>mem := assign ty (mem s1) p v\<rparr>)))"

text \<open>The argument \<^verbatim>\<open>val\<close> has the type of the instance, so it is converted on entry.\<close>

definition store_func :: "env \<Rightarrow> type_t \<Rightarrow> reg_t \<Rightarrow> reg_t \<Rightarrow> mmu_state \<Rightarrow> unit result" where
  "store_func ev ty vaddr val0 s =
     (let v = to_reg ty val0 in
      if misaligned ty vaddr then (Inl (trap_store_address_misaligned vaddr), s)
      else
        let vpn = drop_bit PGSHIFT vaddr in
        case permission_stmt ev s vaddr STORE of
          Throw t \<Rightarrow> (Inl t, s)
        | _ \<Rightarrow>
            if tlb_store_tag s (tlb_slot vpn) = vpn
            then store_at ev ty (tlb_data s (tlb_slot vpn) + vaddr) v s
            else if tlb_store_tag s (tlb_slot vpn) = (vpn OR TLB_CHECK_TRIGGERS)
            then
              if matched_trigger s = None
              then
                bind_res (trigger_exception OPERATION_STORE vaddr v s)
                  (\<lambda>m s1. let s2 = s1\<lparr>matched_trigger := m\<rparr> in
                     case m of
                       Some t \<Rightarrow> (Inl (trigger_matched t), s2)
                     | None \<Rightarrow> store_at ev ty (tlb_data s2 (tlb_slot vpn) + vaddr) v s2)
              else store_at ev ty (tlb_data s (tlb_slot vpn) + vaddr) v s
            else
              store_slow_path ev vaddr (sizeof ty) (bytes_of v (sizeof ty))
                (log_call (Call_store_slow_path vaddr (sizeof ty) (bytes_of v (sizeof ty))) s))"

text \<open>The handler of \<^verbatim>\<open>amo_func\<close>: only \<^verbatim>\<open>trap_load_access_fault\<close> is caught.\<close>

definition amo_catch :: "'a result \<Rightarrow> 'a result" where
  "amo_catch r =
     (case r of
        (Inl (trap_load_access_fault badaddr), s) \<Rightarrow> (Inl (trap_store_access_fault badaddr), s)
      | _ \<Rightarrow> r)"

definition amo_func :: "env \<Rightarrow> type_t \<Rightarrow> reg_t \<Rightarrow> (reg_t \<Rightarrow> reg_t) \<Rightarrow> mmu_state \<Rightarrow> reg_t result" where
  "amo_func ev ty vaddr f s =
     (if misaligned ty vaddr then (Inl (trap_store_address_misaligned vaddr), s)
      else
        amo_catch
          (bind_res (load_func ev ty vaddr s)
             (\<lambda>lhs s1. bind_res (store_func ev ty vaddr (f lhs) s1)
                (\<lambda>_ s2. (Inr lhs, s2)))))"

subsection \<open>Instruction fetch\<close>

definition translate_insn_addr :: "env \<Rightarrow> reg_t \<Rightarrow> mmu_state \<Rightarrow> ptr result" where
  "translate_insn_addr ev vaddr s =
     (let vpn = drop_bit PGSHIFT vaddr in
      case permission_stmt ev s vaddr FETCH of
        Throw t \<Rightarrow> (Inl t, s)
      | _ \<Rightarrow>
          if tlb_insn_tag s (tlb_slot vpn) = vpn
          then (Inr (tlb_data s (tlb_slot vpn) + vaddr), s)
          else if tlb_insn_tag s (tlb_slot vpn) = (vpn OR TLB_CHECK_TRIGGERS)
          then
            let p = tlb_data s (tlb_slot vpn) + vaddr in
            case proc s of
              None \<Rightarrow> (Inl null_dereference, s)
            | Some pr \<Rightarrow>
                let d = deref uint16 (mem s) p;
                    s1 = log_call (Call_trigger_match OPERATION_EXECUTE vaddr d) s;
                    matched = trigger_match pr OPERATION_EXECUTE vaddr d
                in if matched \<ge> 0
                   then (Inl (trigger_matched
                               \<lparr>tm_index = matched, tm_operation = OPERATION_EXECUTE,
                                tm_address = vaddr, tm_data = d\<rparr>), s1)
                   else (Inr p, s1)
          else fetch_slow_path ev vaddr (log_call (Call_fetch_slow_path vaddr) s))"

definition icache_index :: "env \<Rightarrow> reg_t \<Rightarrow> nat" where
  "icache_index ev vaddr = unat ((vaddr div PC_ALIGN ev) mod ICACHE_ENTRIES)"

text \<open>
  \<^verbatim>\<open>insn |= (insn_bits_t)*(const T*)translate_insn_addr(a) << sh\<close> for a 16-bit type
  \<^verbatim>\<open>T\<close>.
\<close>

definition fetch_half :: "env \<Rightarrow> type_t \<Rightarrow> reg_t \<Rightarrow> nat \<Rightarrow> 64 word \<Rightarrow> mmu_state \<Rightarrow> (64 word) result" where
  "fetch_half ev ty a sh bits s =
     bind_res (translate_insn_addr ev a s)
       (\<lambda>p s1. (Inr (bits OR push_bit sh (deref ty (mem s1) p)), s1))"

text \<open>Lines 184 to 196: the rest of the instruction, by its length.\<close>

definition fetch_rest :: "env \<Rightarrow> reg_t \<Rightarrow> 64 word \<Rightarrow> int \<Rightarrow> mmu_state \<Rightarrow> (64 word) result" where
  "fetch_rest ev vaddr bits ilen s =
     (if ilen = 4 then fetch_half ev int16 (vaddr + 2) 16 bits s
      else if ilen = 2 then (Inr (to_reg int16 bits), s)
      else if ilen = 6 then
        bind_res (fetch_half ev int16 (vaddr + 4) 32 bits s)
          (\<lambda>bits1 s1. fetch_half ev uint16 (vaddr + 2) 16 bits1 s1)
      else
        bind_res (fetch_half ev int16 (vaddr + 6) 48 bits s)
          (\<lambda>bits1 s1. bind_res (fetch_half ev uint16 (vaddr + 4) 32 bits1 s1)
             (\<lambda>bits2 s2. fetch_half ev uint16 (vaddr + 2) 16 bits2 s2)))"

text \<open>
  \<^verbatim>\<open>entry\<close> points at slot \<open>idx\<close> of \<^verbatim>\<open>icache\<close>; the result is the entry it points at
  when the function returns. Lines 198 to 207 come first: the entry is filled, and its
  tag is overwritten when the tracer wants the fetch.
\<close>

definition fill_entry ::
  "env \<Rightarrow> reg_t \<Rightarrow> nat \<Rightarrow> ptr \<Rightarrow> int \<Rightarrow> 64 word \<Rightarrow> mmu_state \<Rightarrow> icache_entry_t result" where
  "fill_entry ev vaddr idx iaddr ilen bits s =
     (case proc s of
        None \<Rightarrow> (Inl null_dereference, s)
      | Some pr \<Rightarrow>
          let fetch = \<lparr>func = decode_insn pr bits, insn = bits\<rparr>;
              s1 = s\<lparr>icache := (icache s)(idx := \<lparr>tag = vaddr, data = fetch\<rparr>)\<rparr>;
              paddr = mem_to_addr ev iaddr
          in if interested_in_range ev paddr (paddr + 1) FETCH
             then
               let s2 = log_call (Call_trace paddr ilen FETCH)
                          (s1\<lparr>icache := (icache s1)(idx := (icache s1 idx)\<lparr>tag := - 1\<rparr>)\<rparr>)
               in (Inr (icache s2 idx), s2)
             else (Inr (icache s1 idx), s1))"

definition refill_icache :: "env \<Rightarrow> reg_t \<Rightarrow> nat \<Rightarrow> mmu_state \<Rightarrow> icache_entry_t result" where
  "refill_icache ev vaddr idx s =
     bind_res (translate_insn_addr ev vaddr s)
       (\<lambda>iaddr s1.
          let bits0 = deref uint16 (mem s1) iaddr;
              ilen = insn_length ev bits0
          in bind_res (fetch_rest ev vaddr bits0 ilen s1)
               (fill_entry ev vaddr idx iaddr ilen))"

definition access_icache :: "env \<Rightarrow> reg_t \<Rightarrow> mmu_state \<Rightarrow> icache_entry_t result" where
  "access_icache ev vaddr s =
     (if tag (icache s (icache_index ev vaddr)) = vaddr
      then (Inr (icache s (icache_index ev vaddr)), s)
      else refill_icache ev vaddr (icache_index ev vaddr) s)"

section \<open>The bus of \<^verbatim>\<open>riscv/devices.cc\<close>\<close>

text \<open>
  A device is its two virtual functions. \<^verbatim>\<open>load\<close> gets the buffer and returns it as it
  left it; \<^verbatim>\<open>store\<close> returns, with its result, what it wrote to the standard output.
\<close>

record abstract_device_t =
  dev_load :: "reg_t \<Rightarrow> nat \<Rightarrow> 8 word list \<Rightarrow> bool \<times> 8 word list"
  dev_store :: "reg_t \<Rightarrow> nat \<Rightarrow> 8 word list \<Rightarrow> bool \<times> 8 word list"

text \<open>
  \<^verbatim>\<open>devices\<close> is a \<^verbatim>\<open>std::map<reg_t, abstract_device_t*>\<close>: the entries in ascending
  order of their keys, one entry for a key. \<^verbatim>\<open>map_assign\<close> is \<^verbatim>\<open>devices[k] = dev\<close> and
  \<^verbatim>\<open>lower_bound\<close> finds the first entry whose key is not less than \<open>k\<close>.
\<close>

type_synonym bus_t = "(reg_t \<times> abstract_device_t) list"

fun map_assign :: "reg_t \<Rightarrow> 'd \<Rightarrow> (reg_t \<times> 'd) list \<Rightarrow> (reg_t \<times> 'd) list" where
  "map_assign k d [] = [(k, d)]"
| "map_assign k d ((k', d') # es) =
     (if k < k' then (k, d) # (k', d') # es
      else if k = k' then (k, d) # es
      else (k', d') # map_assign k d es)"

fun lower_bound :: "reg_t \<Rightarrow> (reg_t \<times> 'd) list \<Rightarrow> (reg_t \<times> 'd) option" where
  "lower_bound k [] = None"
| "lower_bound k ((k', d') # es) = (if k \<le> k' then Some (k', d') else lower_bound k es)"

definition add_device :: "reg_t \<Rightarrow> abstract_device_t \<Rightarrow> bus_t \<Rightarrow> bus_t" where
  "add_device a dev devices = map_assign (- a) dev devices"

definition bus_load :: "bus_t \<Rightarrow> reg_t \<Rightarrow> nat \<Rightarrow> 8 word list \<Rightarrow> bool \<times> 8 word list" where
  "bus_load devices a n bytes =
     (case lower_bound (- a) devices of
        None \<Rightarrow> (False, bytes)
      | Some (k, dev) \<Rightarrow> dev_load dev (a - - k) n bytes)"

definition bus_store :: "bus_t \<Rightarrow> reg_t \<Rightarrow> nat \<Rightarrow> 8 word list \<Rightarrow> bool \<times> 8 word list" where
  "bus_store devices a n bytes =
     (case lower_bound (- a) devices of
        None \<Rightarrow> (False, [])
      | Some (k, dev) \<Rightarrow> dev_store dev (a - - k) n bytes)"

definition uart_load :: "reg_t \<Rightarrow> nat \<Rightarrow> 8 word list \<Rightarrow> bool \<times> 8 word list" where
  "uart_load a n bytes =
     (if a = 0 then (True, replicate n 0 @ drop n bytes)
      else if a = 4 then (True, replicate n 255 @ drop n bytes)
      else (False, bytes))"

definition uart_store :: "bool \<Rightarrow> reg_t \<Rightarrow> nat \<Rightarrow> 8 word list \<Rightarrow> bool \<times> 8 word list" where
  "uart_store print a n bytes =
     (if a = 0 then (True, if print then take 1 bytes else [])
      else if a = 4 \<or> a = 8 \<or> a = 12 \<or> a = 16 then (True, [])
      else (False, []))"

definition uart_dev_t :: "bool \<Rightarrow> abstract_device_t" where
  "uart_dev_t print = \<lparr>dev_load = uart_load, dev_store = uart_store print\<rparr>"

text \<open>
  What the bus is meant to find, in the words of its description: \<^verbatim>\<open>add_device(addr, dev)\<close>
  keeps \<open>dev\<close> under the key \<open>- addr\<close>, so the registered devices with their base
  addresses are \<^verbatim>\<open>bases\<close>, and \<^verbatim>\<open>greatest_base a\<close> is the registered device whose base is the
  greatest one not exceeding \<open>a\<close>, if there is one.
\<close>

definition bases :: "(reg_t \<times> 'd) list \<Rightarrow> (reg_t \<times> 'd) list" where
  "bases devices = map (\<lambda>(k, d). (- k, d)) devices"

fun greatest_base :: "reg_t \<Rightarrow> (reg_t \<times> 'd) list \<Rightarrow> (reg_t \<times> 'd) option" where
  "greatest_base a [] = None"
| "greatest_base a ((b, d) # rest) =
     (case greatest_base a rest of
        None \<Rightarrow> (if b \<le> a then Some (b, d) else None)
      | Some (b', d') \<Rightarrow> (if b \<le> a \<and> b' < b then Some (b, d) else Some (b', d')))"

text \<open>A device that answers every load and store, with the offset it was given.\<close>

definition ex_probe :: abstract_device_t where
  "ex_probe = \<lparr>dev_load = (\<lambda>off n bytes. (True, bytes_of off n)),
               dev_store = (\<lambda>off n bytes. (True, bytes_of off n))\<rparr>"

section \<open>A concrete machine\<close>

text \<open>
  The values of the RISC-V privileged architecture 1.9.1 for the constants of
  \<^verbatim>\<open>encoding.h\<close>, and its \<^verbatim>\<open>get_field\<close>; used where a statement is evaluated.
\<close>

definition ex_enc :: encoding where
  "ex_enc =
     \<lparr>get_field = (\<lambda>r m. (r AND m) div (m AND NOT (push_bit 1 m))),
      MSTATUS_MPRV = 0x20000, MSTATUS_MPP = 0x1800, MSTATUS_VM = 0x1F000000,
      MSTATUS_PUM = 0x40000, MSTATUS_MXR = 0x80000,
      VM_MBARE = 0, VM_SV32 = 8, VM_SV39 = 9, VM_SV48 = 10,
      PRV_S = 1, PRV_M = 3,
      PTE_V = 1, PTE_R = 2, PTE_W = 4, PTE_X = 8, PTE_U = 16, PTE_D = 128\<rparr>"

text \<open>
  A hart in supervisor mode under Sv39. Trigger 0 fires on address \<open>0x3000\<close> with timing
  0 (before), trigger 1 on address \<open>0x4000\<close> with timing 1 (after).
\<close>

definition ex_proc :: processor_t where
  "ex_proc =
     \<lparr>trigger_match = (\<lambda>operation a d. if a = 0x3000 then 0 else if a = 0x4000 then 1 else - 1),
      mcontrol_timing = (\<lambda>i. if i = 0 then 0 else 1),
      timestamp = 7,
      decode_insn = (\<lambda>bits. unat (bits AND 127)),
      prv = 1, dcsr_cause = 0, mstatus = 0x09000000\<rparr>"

text \<open>
  Slow paths that raise the access fault of their kind, no tracer, the \<^verbatim>\<open>insn_length\<close>
  of \<^verbatim>\<open>decode.h\<close> and a host that keeps physical address \<open>pa\<close> at \<open>0x100000 + pa\<close>.
\<close>

definition ex_env :: env where
  "ex_env =
     \<lparr>load_slow_path = (\<lambda>a n s. (Inl (trap_load_access_fault a), s)),
      store_slow_path = (\<lambda>a n bytes s. (Inl (trap_store_access_fault a), s)),
      fetch_slow_path = (\<lambda>a s. (Inl (trap_instruction_access_fault a), s)),
      mem_to_addr = (\<lambda>p. p - 0x100000),
      interested_in_range = (\<lambda>b e ty. False),
      insn_length = (\<lambda>x. if x AND 3 < 3 then 2 else if x AND 31 < 31 then 4
                          else if x AND 63 < 63 then 6 else 8),
      PC_ALIGN = 2,
      enc = ex_enc\<rparr>"

text \<open>The same with a tracer that wants the fetches that begin at an address in \<open>P\<close>.\<close>

definition ex_env_traced :: "(reg_t \<Rightarrow> bool) \<Rightarrow> env" where
  "ex_env_traced P = ex_env\<lparr>interested_in_range := (\<lambda>b e ty. ty = FETCH \<and> P b)\<rparr>"

text \<open>
  Time-warp mode is on. Page 1 is identity mapped in all three TLB tables, pages 3, 4
  and 5 as well but with \<^verbatim>\<open>TLB_CHECK_TRIGGERS\<close> set, the last page of the address space
  is mapped for fetches, and every other slot is empty. The permission record of page 1
  is valid and readable, not writable. The word at \<open>0x1000\<close> is \<open>0x00000013\<close>.
\<close>

definition ex_tags :: "nat \<Rightarrow> reg_t" where
  "ex_tags i =
     (if i = 1 then 1
      else if i = 3 then 3 OR TLB_CHECK_TRIGGERS
      else if i = 4 then 4 OR TLB_CHECK_TRIGGERS
      else if i = 5 then 5 OR TLB_CHECK_TRIGGERS
      else - 1)"

definition ex_state :: mmu_state where
  "ex_state =
     \<lparr>mem = (\<lambda>p. if p = 0x101000 then 0x13 else 0),
      proc = Some ex_proc,
      itlb = \<lparr>meta = (\<lambda>i. 0), tags = (\<lambda>i. - 1), tag_map = Map.empty\<rparr>,
      dtlb = \<lparr>meta = (\<lambda>i. if i = 0 then 3 else 0),
              tags = (\<lambda>i. if i = 0 then 1 else - 1),
              tag_map = [1 \<mapsto> 0]\<rparr>,
      icache = (\<lambda>i. \<lparr>tag = - 1, data = \<lparr>func = 0, insn = 0\<rparr>\<rparr>),
      tlb_data = (\<lambda>i. 0x100000),
      tlb_insn_tag = (\<lambda>i. if i = 255 then 0xFFFFFFFFFFFFF else ex_tags i),
      tlb_load_tag = ex_tags,
      tlb_store_tag = ex_tags,
      matched_trigger = None,
      timewarp = True,
      trace_clks = [],
      traces = [],
      calls = []\<rparr>"

definition ex_trigger :: trigger_matched_t where
  "ex_trigger =
     \<lparr>tm_index = 1, tm_operation = OPERATION_LOAD, tm_address = 0x4000, tm_data = 0\<rparr>"

text \<open>The same machine with a matched trigger pending, and without a processor.\<close>

definition ex_state_pending :: mmu_state where
  "ex_state_pending = ex_state\<lparr>matched_trigger := Some ex_trigger\<rparr>"

definition ex_state_noproc :: mmu_state where
  "ex_state_noproc = ex_state\<lparr>proc := None\<rparr>"

text \<open>
  The same machine with slot 1023 of the instruction cache holding the instruction at
  \<open>0x7FE\<close>.
\<close>

definition ex_state_last :: mmu_state where
  "ex_state_last =
     ex_state\<lparr>icache := (icache ex_state)(1023 := \<lparr>tag = 0x7FE, data = \<lparr>func = 0, insn = 0\<rparr>\<rparr>)\<rparr>"

section \<open>Alignment\<close>

lemma mask_zero_iff: "(a :: 64 word) AND mask k = 0 \<longleftrightarrow> unat a mod 2 ^ k = 0"
proof -
  have "unat (a AND mask k) = unat (take_bit k a)"
    by (simp only: take_bit_eq_mask)
  also have "\<dots> = take_bit k (unat a)"
    by (rule unsigned_take_bit_eq)
  also have "\<dots> = unat a mod 2 ^ k"
    by (rule take_bit_eq_mod)
  finally have "unat (a AND mask k) = unat a mod 2 ^ k" .
  moreover have "a AND mask k = 0 \<longleftrightarrow> unat (a AND mask k) = 0"
    by (simp only: unsigned_eq_0_iff)
  ultimately show ?thesis by simp
qed

lemma misaligned_iff: "misaligned ty a \<longleftrightarrow> unat a mod sizeof ty \<noteq> 0"
  using mask_zero_iff [of a 0] mask_zero_iff [of a 1] mask_zero_iff [of a 2] mask_zero_iff [of a 3]
  by (cases ty) (simp_all add: misaligned_def mask_eq_exp_minus_1)

text \<open>
  C4: when the address is not a multiple of the width of the access, a load throws
  \<^verbatim>\<open>trap_load_address_misaligned\<close> and a store \<^verbatim>\<open>trap_store_address_misaligned\<close>, both
  with the address. The state they leave is the state they found, whatever the TLB
  tables and the time-warp flag hold: memory is as it was and no collaborator was called.
\<close>

theorem misaligned_access_faults:
  "unat a mod sizeof ty \<noteq> 0 \<Longrightarrow>
     load_func ev ty a s = (Inl (trap_load_address_misaligned a), s)
   \<and> store_func ev ty a v s = (Inl (trap_store_address_misaligned a), s)"
  by (simp add: misaligned_iff load_func_def store_func_def)

theorem misaligned_access_faults_witness:
  "unat (0x1002 :: reg_t) mod sizeof uint32 \<noteq> 0
   \<and> load_func ex_env uint32 0x1002 ex_state = (Inl (trap_load_address_misaligned 0x1002), ex_state)
   \<and> store_func ex_env uint32 0x1002 5 ex_state
       = (Inl (trap_store_address_misaligned 0x1002), ex_state)"
proof -
  have h: "unat (0x1002 :: reg_t) mod sizeof uint32 \<noteq> 0" by simp
  show ?thesis
    using h misaligned_access_faults [OF h, of ex_env ex_state 5] by simp
qed

section \<open>The three outcomes of a TLB lookup\<close>

lemma then_stmt_Return: "then_stmt Return b = Return"
  by (simp add: then_stmt_def)

lemma permission_stmt_eq: "permission_stmt ev s a ty = (if timewarp s then Return else Normal)"
  by (simp add: permission_stmt_def check_permission_def then_stmt_Return)

lemma set_matched_trigger_same: "matched_trigger s = m \<Longrightarrow> s\<lparr>matched_trigger := m\<rparr> = s"
  by (cases s) simp

lemma vpn_no_trigger_bit: "vpn_of a OR TLB_CHECK_TRIGGERS \<noteq> vpn_of a"
proof
  assume eq: "vpn_of a OR TLB_CHECK_TRIGGERS = vpn_of a"
  have "bit (vpn_of a OR TLB_CHECK_TRIGGERS) 63"
    by (simp add: bit_or_iff TLB_CHECK_TRIGGERS_def bit_push_bit_iff)
  moreover have "\<not> bit (vpn_of a) 63"
    by (simp add: bit_drop_bit_eq PGSHIFT_def bit_word_iff_drop_bit_and)
  ultimately show False using eq by simp
qed

lemma load_func_cases:
  "\<not> misaligned ty a \<Longrightarrow>
   load_func ev ty a s =
     (if tlb_load_tag s (slot_of a) = vpn_of a
      then (Inr (deref ty (mem s) (hit_ptr s a)), s)
      else if tlb_load_tag s (slot_of a) = (vpn_of a OR TLB_CHECK_TRIGGERS)
      then
        if matched_trigger s = None
        then bind_res (trigger_exception OPERATION_LOAD a (deref ty (mem s) (hit_ptr s a)) s)
               (\<lambda>m s1. case m of
                    Some t \<Rightarrow> (Inl (trigger_matched t), s1\<lparr>matched_trigger := m\<rparr>)
                  | None \<Rightarrow> (Inr (deref ty (mem s) (hit_ptr s a)), s1\<lparr>matched_trigger := m\<rparr>))
        else (Inr (deref ty (mem s) (hit_ptr s a)), s)
      else bind_res (load_slow_path ev a (sizeof ty) (log_call (Call_load_slow_path a (sizeof ty)) s))
             (\<lambda>bytes s1. (Inr (to_reg ty (le_val (take (sizeof ty) bytes))), s1)))"
  by (simp add: load_func_def permission_stmt_eq Let_def)

lemma store_func_cases:
  "\<not> misaligned ty a \<Longrightarrow>
   store_func ev ty a v s =
     (if tlb_store_tag s (slot_of a) = vpn_of a
      then store_at ev ty (hit_ptr s a) (to_reg ty v) s
      else if tlb_store_tag s (slot_of a) = (vpn_of a OR TLB_CHECK_TRIGGERS)
      then
        if matched_trigger s = None
        then bind_res (trigger_exception OPERATION_STORE a (to_reg ty v) s)
               (\<lambda>m s1. case m of
                    Some t \<Rightarrow> (Inl (trigger_matched t), s1\<lparr>matched_trigger := m\<rparr>)
                  | None \<Rightarrow> store_at ev ty (hit_ptr (s1\<lparr>matched_trigger := m\<rparr>) a) (to_reg ty v)
                             (s1\<lparr>matched_trigger := m\<rparr>))
        else store_at ev ty (hit_ptr s a) (to_reg ty v) s
      else store_slow_path ev a (sizeof ty) (bytes_of (to_reg ty v) (sizeof ty))
             (log_call (Call_store_slow_path a (sizeof ty) (bytes_of (to_reg ty v) (sizeof ty))) s))"
  by (simp add: store_func_def permission_stmt_eq Let_def)

lemma translate_insn_addr_cases:
  "translate_insn_addr ev a s =
     (if tlb_insn_tag s (slot_of a) = vpn_of a
      then (Inr (hit_ptr s a), s)
      else if tlb_insn_tag s (slot_of a) = (vpn_of a OR TLB_CHECK_TRIGGERS)
      then
        case proc s of
          None \<Rightarrow> (Inl null_dereference, s)
        | Some pr \<Rightarrow>
            if trigger_match pr OPERATION_EXECUTE a (deref uint16 (mem s) (hit_ptr s a)) \<ge> 0
            then (Inl (trigger_matched
                        \<lparr>tm_index = trigger_match pr OPERATION_EXECUTE a
                                       (deref uint16 (mem s) (hit_ptr s a)),
                         tm_operation = OPERATION_EXECUTE, tm_address = a,
                         tm_data = deref uint16 (mem s) (hit_ptr s a)\<rparr>),
                  log_call (Call_trigger_match OPERATION_EXECUTE a
                              (deref uint16 (mem s) (hit_ptr s a))) s)
            else (Inr (hit_ptr s a),
                  log_call (Call_trigger_match OPERATION_EXECUTE a
                              (deref uint16 (mem s) (hit_ptr s a))) s)
      else fetch_slow_path ev a (log_call (Call_fetch_slow_path a) s))"
  by (simp add: translate_insn_addr_def permission_stmt_eq Let_def split: option.split)

lemma trigger_exception_proc:
  "proc s = Some p \<Longrightarrow>
   trigger_exception operation a d s =
     (if trigger_match p operation a d = - 1
      then (Inr None, log_call (Call_trigger_match operation a d) s)
      else if mcontrol_timing p (trigger_match p operation a d) = 0
      then (Inl (trigger_matched \<lparr>tm_index = trigger_match p operation a d,
                                  tm_operation = operation, tm_address = a, tm_data = d\<rparr>),
            log_call (Call_trigger_match operation a d) s)
      else (Inr (Some \<lparr>tm_index = trigger_match p operation a d,
                       tm_operation = operation, tm_address = a, tm_data = d\<rparr>),
            log_call (Call_trigger_match operation a d) s))"
  by (simp add: trigger_exception_def Let_def)

lemma trigger_exception_no_proc:
  "proc s = None \<Longrightarrow> trigger_exception operation a d s = (Inr None, s)"
  by (simp add: trigger_exception_def)

lemma log_call_fields [simp]:
  "matched_trigger (log_call c s) = matched_trigger s"
  "mem (log_call c s) = mem s"
  "proc (log_call c s) = proc s"
  "timewarp (log_call c s) = timewarp s"
  "tlb_data (log_call c s) = tlb_data s"
  "icache (log_call c s) = icache s"
  "traces (log_call c s) = traces s"
  "trace_clks (log_call c s) = trace_clks s"
  "calls (log_call c s) = calls s @ [c]"
  by (simp_all add: log_call_def)

lemma load_trigger_checked:
  assumes "\<not> misaligned ty a"
    and "tlb_load_tag s (slot_of a) = (vpn_of a OR TLB_CHECK_TRIGGERS)"
    and "matched_trigger s = None" and "proc s = Some p"
  shows "load_func ev ty a s =
     (let d = deref ty (mem s) (hit_ptr s a);
          m = trigger_match p OPERATION_LOAD a d;
          t = \<lparr>tm_index = m, tm_operation = OPERATION_LOAD, tm_address = a, tm_data = d\<rparr>;
          s1 = log_call (Call_trigger_match OPERATION_LOAD a d) s
      in if m = - 1 then (Inr d, s1)
         else if mcontrol_timing p m = 0 then (Inl (trigger_matched t), s1)
         else (Inl (trigger_matched t), s1\<lparr>matched_trigger := Some t\<rparr>))"
  using assms
  by (simp add: load_func_cases vpn_no_trigger_bit trigger_exception_proc bind_res_def Let_def
      set_matched_trigger_same)

lemma store_trigger_checked:
  assumes "\<not> misaligned ty a"
    and "tlb_store_tag s (slot_of a) = (vpn_of a OR TLB_CHECK_TRIGGERS)"
    and "matched_trigger s = None" and "proc s = Some p"
  shows "store_func ev ty a v s =
     (let d = to_reg ty v;
          m = trigger_match p OPERATION_STORE a d;
          t = \<lparr>tm_index = m, tm_operation = OPERATION_STORE, tm_address = a, tm_data = d\<rparr>;
          s1 = log_call (Call_trigger_match OPERATION_STORE a d) s
      in if m = - 1 then store_at ev ty (hit_ptr s a) d s1
         else if mcontrol_timing p m = 0 then (Inl (trigger_matched t), s1)
         else (Inl (trigger_matched t), s1\<lparr>matched_trigger := Some t\<rparr>))"
  using assms
  by (simp add: store_func_cases vpn_no_trigger_bit trigger_exception_proc bind_res_def Let_def
      set_matched_trigger_same)

lemma load_trigger_skipped:
  assumes "\<not> misaligned ty a"
    and "tlb_load_tag s (slot_of a) = (vpn_of a OR TLB_CHECK_TRIGGERS)"
    and "matched_trigger s \<noteq> None \<or> proc s = None"
  shows "load_func ev ty a s = (Inr (deref ty (mem s) (hit_ptr s a)), s)"
  using assms
  by (auto simp add: load_func_cases vpn_no_trigger_bit trigger_exception_no_proc bind_res_def
      set_matched_trigger_same)

lemma store_trigger_skipped:
  assumes "\<not> misaligned ty a"
    and "tlb_store_tag s (slot_of a) = (vpn_of a OR TLB_CHECK_TRIGGERS)"
    and "matched_trigger s \<noteq> None \<or> proc s = None"
  shows "store_func ev ty a v s = store_at ev ty (hit_ptr s a) (to_reg ty v) s"
  using assms
  by (auto simp add: store_func_cases vpn_no_trigger_bit trigger_exception_no_proc bind_res_def
      set_matched_trigger_same)

subsection \<open>The concrete machine, evaluated\<close>

lemma ex_state_fields:
  "proc ex_state = Some ex_proc" "matched_trigger ex_state = None" "timewarp ex_state"
  "calls ex_state = []" "traces ex_state = []" "trace_clks ex_state = []"
  "tlb_data ex_state i = 0x100000"
  "mem ex_state = (\<lambda>p. if p = 0x101000 then 0x13 else 0)"
  by (simp_all add: ex_state_def)

lemma ex_state_tags:
  "tlb_load_tag ex_state (slot_of 0x1000) = vpn_of 0x1000"
  "tlb_load_tag ex_state (slot_of 0x2000) \<noteq> vpn_of 0x2000"
  "tlb_load_tag ex_state (slot_of 0x2000) \<noteq> (vpn_of 0x2000 OR TLB_CHECK_TRIGGERS)"
  "tlb_load_tag ex_state (slot_of 0x3000) = (vpn_of 0x3000 OR TLB_CHECK_TRIGGERS)"
  "tlb_load_tag ex_state (slot_of 0x4000) = (vpn_of 0x4000 OR TLB_CHECK_TRIGGERS)"
  "tlb_load_tag ex_state (slot_of 0x5000) = (vpn_of 0x5000 OR TLB_CHECK_TRIGGERS)"
  "tlb_store_tag ex_state (slot_of 0x1000) = vpn_of 0x1000"
  "tlb_store_tag ex_state (slot_of 0x2000) \<noteq> vpn_of 0x2000"
  "tlb_store_tag ex_state (slot_of 0x2000) \<noteq> (vpn_of 0x2000 OR TLB_CHECK_TRIGGERS)"
  "tlb_store_tag ex_state (slot_of 0x3000) = (vpn_of 0x3000 OR TLB_CHECK_TRIGGERS)"
  "tlb_store_tag ex_state (slot_of 0x4000) = (vpn_of 0x4000 OR TLB_CHECK_TRIGGERS)"
  "tlb_store_tag ex_state (slot_of 0x5000) = (vpn_of 0x5000 OR TLB_CHECK_TRIGGERS)"
  "tlb_insn_tag ex_state (slot_of 0x1000) = vpn_of 0x1000"
  "tlb_insn_tag ex_state (slot_of 0x1002) = vpn_of 0x1002"
  "tlb_insn_tag ex_state (slot_of 0x2000) \<noteq> vpn_of 0x2000"
  "tlb_insn_tag ex_state (slot_of 0x2000) \<noteq> (vpn_of 0x2000 OR TLB_CHECK_TRIGGERS)"
  "tlb_insn_tag ex_state (slot_of 0x3000) = (vpn_of 0x3000 OR TLB_CHECK_TRIGGERS)"
  "tlb_insn_tag ex_state (slot_of 0x5000) = (vpn_of 0x5000 OR TLB_CHECK_TRIGGERS)"
  by (simp_all add: tlb_slot_def PGSHIFT_def TLB_ENTRIES_def TLB_CHECK_TRIGGERS_def
      ex_state_def ex_tags_def)

lemma ex_aligned:
  "\<not> misaligned uint32 0x1000" "\<not> misaligned uint32 0x2000" "\<not> misaligned uint32 0x3000"
  "\<not> misaligned uint32 0x4000" "\<not> misaligned uint32 0x5000" "\<not> misaligned uint8 0x1000"
  by (simp_all add: misaligned_def)

lemma ex_deref:
  "deref uint32 (mem ex_state) (hit_ptr ex_state 0x1000) = 0x13"
  "deref uint32 (mem ex_state) (hit_ptr ex_state 0x3000) = 0"
  "deref uint32 (mem ex_state) (hit_ptr ex_state 0x4000) = 0"
  "deref uint32 (mem ex_state) (hit_ptr ex_state 0x5000) = 0"
  "deref uint16 (mem ex_state) (hit_ptr ex_state 0x3000) = 0"
  "deref uint16 (mem ex_state) (hit_ptr ex_state 0x5000) = 0"
  by (simp_all add: deref_def to_reg_def read_bytes_def upt_rec ex_state_fields)

lemma ex_proc_triggers:
  "trigger_match ex_proc operation 0x3000 d = 0"
  "trigger_match ex_proc operation 0x4000 d = 1"
  "trigger_match ex_proc operation 0x5000 d = - 1"
  "mcontrol_timing ex_proc 0 = 0"
  "mcontrol_timing ex_proc 1 = 1"
  by (simp_all add: ex_proc_def)

lemma ex_env_slow:
  "load_slow_path ex_env a n s = (Inl (trap_load_access_fault a), s)"
  "store_slow_path ex_env a n bytes s = (Inl (trap_store_access_fault a), s)"
  "fetch_slow_path ex_env a s = (Inl (trap_instruction_access_fault a), s)"
  "mem_to_addr ex_env q = q - 0x100000"
  by (simp_all add: ex_env_def)

lemma ex_state_pending_fields:
  "proc ex_state_pending = Some ex_proc" "matched_trigger ex_state_pending = Some ex_trigger"
  "timewarp ex_state_pending" "calls ex_state_pending = []"
  "mem ex_state_pending = mem ex_state" "tlb_data ex_state_pending = tlb_data ex_state"
  "tlb_load_tag ex_state_pending = tlb_load_tag ex_state"
  "tlb_store_tag ex_state_pending = tlb_store_tag ex_state"
  "tlb_insn_tag ex_state_pending = tlb_insn_tag ex_state"
  by (simp_all add: ex_state_pending_def ex_state_fields)

lemma ex_state_noproc_fields:
  "proc ex_state_noproc = None" "matched_trigger ex_state_noproc = None"
  "timewarp ex_state_noproc" "calls ex_state_noproc = []"
  "mem ex_state_noproc = mem ex_state" "tlb_data ex_state_noproc = tlb_data ex_state"
  "tlb_load_tag ex_state_noproc = tlb_load_tag ex_state"
  "tlb_store_tag ex_state_noproc = tlb_store_tag ex_state"
  "tlb_insn_tag ex_state_noproc = tlb_insn_tag ex_state"
  by (simp_all add: ex_state_noproc_def ex_state_fields)

subsection \<open>Hit, trigger check, miss\<close>

text \<open>
  C1, as the code has it. For a load or a store whose address passes the alignment
  check, and for an instruction fetch: when the tag of the slot is the page number, the
  access is made at \<^verbatim>\<open>tlb_data[slot] + addr\<close> and nothing else happens; when the tag is the
  page number with \<^verbatim>\<open>TLB_CHECK_TRIGGERS\<close>, the access uses the same pointer, and the
  triggers are matched against the address and the data first, except that a load or a
  store does not match them when a matched trigger is already pending or the MMU has no
  processor; in every other case the slow path of the access is called.
\<close>

theorem tlb_fast_path:
  "(\<not> misaligned ty a \<longrightarrow>
      (tlb_load_tag s (slot_of a) = vpn_of a \<longrightarrow>
         load_func ev ty a s = (Inr (deref ty (mem s) (hit_ptr s a)), s))
    \<and> (tlb_load_tag s (slot_of a) = (vpn_of a OR TLB_CHECK_TRIGGERS)
         \<and> matched_trigger s = None \<and> proc s = Some p \<longrightarrow>
         load_func ev ty a s =
           (let d = deref ty (mem s) (hit_ptr s a);
                m = trigger_match p OPERATION_LOAD a d;
                t = \<lparr>tm_index = m, tm_operation = OPERATION_LOAD, tm_address = a, tm_data = d\<rparr>;
                s1 = log_call (Call_trigger_match OPERATION_LOAD a d) s
            in if m = - 1 then (Inr d, s1)
               else if mcontrol_timing p m = 0 then (Inl (trigger_matched t), s1)
               else (Inl (trigger_matched t), s1\<lparr>matched_trigger := Some t\<rparr>)))
    \<and> (tlb_load_tag s (slot_of a) = (vpn_of a OR TLB_CHECK_TRIGGERS)
         \<and> (matched_trigger s \<noteq> None \<or> proc s = None) \<longrightarrow>
         load_func ev ty a s = (Inr (deref ty (mem s) (hit_ptr s a)), s))
    \<and> (tlb_load_tag s (slot_of a) \<noteq> vpn_of a
         \<and> tlb_load_tag s (slot_of a) \<noteq> (vpn_of a OR TLB_CHECK_TRIGGERS) \<longrightarrow>
         load_func ev ty a s =
           bind_res (load_slow_path ev a (sizeof ty)
                       (log_call (Call_load_slow_path a (sizeof ty)) s))
             (\<lambda>bytes s1. (Inr (to_reg ty (le_val (take (sizeof ty) bytes))), s1)))
    \<and> (tlb_store_tag s (slot_of a) = vpn_of a \<longrightarrow>
         store_func ev ty a v s = store_at ev ty (hit_ptr s a) (to_reg ty v) s)
    \<and> (tlb_store_tag s (slot_of a) = (vpn_of a OR TLB_CHECK_TRIGGERS)
         \<and> matched_trigger s = None \<and> proc s = Some p \<longrightarrow>
         store_func ev ty a v s =
           (let d = to_reg ty v;
                m = trigger_match p OPERATION_STORE a d;
                t = \<lparr>tm_index = m, tm_operation = OPERATION_STORE, tm_address = a, tm_data = d\<rparr>;
                s1 = log_call (Call_trigger_match OPERATION_STORE a d) s
            in if m = - 1 then store_at ev ty (hit_ptr s a) d s1
               else if mcontrol_timing p m = 0 then (Inl (trigger_matched t), s1)
               else (Inl (trigger_matched t), s1\<lparr>matched_trigger := Some t\<rparr>)))
    \<and> (tlb_store_tag s (slot_of a) = (vpn_of a OR TLB_CHECK_TRIGGERS)
         \<and> (matched_trigger s \<noteq> None \<or> proc s = None) \<longrightarrow>
         store_func ev ty a v s = store_at ev ty (hit_ptr s a) (to_reg ty v) s)
    \<and> (tlb_store_tag s (slot_of a) \<noteq> vpn_of a
         \<and> tlb_store_tag s (slot_of a) \<noteq> (vpn_of a OR TLB_CHECK_TRIGGERS) \<longrightarrow>
         store_func ev ty a v s =
           store_slow_path ev a (sizeof ty) (bytes_of (to_reg ty v) (sizeof ty))
             (log_call (Call_store_slow_path a (sizeof ty) (bytes_of (to_reg ty v) (sizeof ty))) s)))
   \<and> (tlb_insn_tag s (slot_of a) = vpn_of a \<longrightarrow>
         translate_insn_addr ev a s = (Inr (hit_ptr s a), s))
   \<and> (tlb_insn_tag s (slot_of a) = (vpn_of a OR TLB_CHECK_TRIGGERS) \<and> proc s = Some p \<longrightarrow>
         translate_insn_addr ev a s =
           (let d = deref uint16 (mem s) (hit_ptr s a);
                m = trigger_match p OPERATION_EXECUTE a d;
                t = \<lparr>tm_index = m, tm_operation = OPERATION_EXECUTE, tm_address = a, tm_data = d\<rparr>;
                s1 = log_call (Call_trigger_match OPERATION_EXECUTE a d) s
            in if m \<ge> 0 then (Inl (trigger_matched t), s1) else (Inr (hit_ptr s a), s1)))
   \<and> (tlb_insn_tag s (slot_of a) \<noteq> vpn_of a
         \<and> tlb_insn_tag s (slot_of a) \<noteq> (vpn_of a OR TLB_CHECK_TRIGGERS) \<longrightarrow>
         translate_insn_addr ev a s = fetch_slow_path ev a (log_call (Call_fetch_slow_path a) s))"
  apply (intro conjI impI)
  subgoal by (simp add: load_func_cases)
  subgoal by (rule load_trigger_checked) simp_all
  subgoal by (rule load_trigger_skipped) simp_all
  subgoal by (simp add: load_func_cases)
  subgoal by (simp add: store_func_cases)
  subgoal by (rule store_trigger_checked) simp_all
  subgoal by (rule store_trigger_skipped) simp_all
  subgoal by (simp add: store_func_cases)
  subgoal by (simp add: translate_insn_addr_cases)
  subgoal by (simp add: translate_insn_addr_cases vpn_no_trigger_bit Let_def)
  subgoal by (simp add: translate_insn_addr_cases)
  done

theorem tlb_fast_path_witness:
  "load_func ex_env uint32 0x1000 ex_state = (Inr 0x13, ex_state)
   \<and> load_func ex_env uint32 0x2000 ex_state
       = (Inl (trap_load_access_fault 0x2000), log_call (Call_load_slow_path 0x2000 4) ex_state)
   \<and> load_func ex_env uint32 0x3000 ex_state
       = (Inl (trigger_matched \<lparr>tm_index = 0, tm_operation = OPERATION_LOAD,
                                tm_address = 0x3000, tm_data = 0\<rparr>),
          log_call (Call_trigger_match OPERATION_LOAD 0x3000 0) ex_state)
   \<and> load_func ex_env uint32 0x3000 ex_state_pending = (Inr 0, ex_state_pending)
   \<and> store_func ex_env uint32 0x1000 9 ex_state
       = store_at ex_env uint32 (hit_ptr ex_state 0x1000) 9 ex_state
   \<and> store_func ex_env uint32 0x5000 9 ex_state
       = store_at ex_env uint32 (hit_ptr ex_state 0x5000) 9
           (log_call (Call_trigger_match OPERATION_STORE 0x5000 9) ex_state)
   \<and> store_func ex_env uint32 0x3000 9 ex_state_pending
       = store_at ex_env uint32 (hit_ptr ex_state_pending 0x3000) 9 ex_state_pending
   \<and> store_func ex_env uint32 0x2000 9 ex_state
       = (Inl (trap_store_access_fault 0x2000),
          log_call (Call_store_slow_path 0x2000 4 [9, 0, 0, 0]) ex_state)
   \<and> translate_insn_addr ex_env 0x1000 ex_state = (Inr (hit_ptr ex_state 0x1000), ex_state)
   \<and> translate_insn_addr ex_env 0x5000 ex_state
       = (Inr (hit_ptr ex_state 0x5000),
          log_call (Call_trigger_match OPERATION_EXECUTE 0x5000 0) ex_state)
   \<and> translate_insn_addr ex_env 0x2000 ex_state
       = (Inl (trap_instruction_access_fault 0x2000),
          log_call (Call_fetch_slow_path 0x2000) ex_state)"
proof -
  note at1 = tlb_fast_path [of uint32 "0x1000" ex_state ex_env ex_proc 9]
  note at2 = tlb_fast_path [of uint32 "0x2000" ex_state ex_env ex_proc 9]
  note at3 = tlb_fast_path [of uint32 "0x3000" ex_state ex_env ex_proc 9]
  note at5 = tlb_fast_path [of uint32 "0x5000" ex_state ex_env ex_proc 9]
  note pend = tlb_fast_path [of uint32 "0x3000" ex_state_pending ex_env ex_proc 9]
  have l1: "load_func ex_env uint32 0x1000 ex_state
      = (Inr (deref uint32 (mem ex_state) (hit_ptr ex_state 0x1000)), ex_state)"
    using at1 ex_aligned(1) ex_state_tags(1) by blast
  have l2: "load_func ex_env uint32 0x2000 ex_state
      = bind_res (load_slow_path ex_env 0x2000 (sizeof uint32)
                       (log_call (Call_load_slow_path 0x2000 (sizeof uint32)) ex_state))
             (\<lambda>bytes s1. (Inr (to_reg uint32 (le_val (take (sizeof uint32) bytes))), s1))"
    using at2 ex_aligned(2) ex_state_tags(2,3) by blast
  have l3: "load_func ex_env uint32 0x3000 ex_state =
           (let d = deref uint32 (mem ex_state) (hit_ptr ex_state 0x3000);
                m = trigger_match ex_proc OPERATION_LOAD 0x3000 d;
                t = \<lparr>tm_index = m, tm_operation = OPERATION_LOAD, tm_address = 0x3000, tm_data = d\<rparr>;
                s1 = log_call (Call_trigger_match OPERATION_LOAD 0x3000 d) ex_state
            in if m = - 1 then (Inr d, s1)
               else if mcontrol_timing ex_proc m = 0 then (Inl (trigger_matched t), s1)
               else (Inl (trigger_matched t), s1\<lparr>matched_trigger := Some t\<rparr>))"
    using at3 ex_aligned(3) ex_state_tags(4) ex_state_fields(1,2) by blast
  have l4: "load_func ex_env uint32 0x3000 ex_state_pending
      = (Inr (deref uint32 (mem ex_state_pending) (hit_ptr ex_state_pending 0x3000)),
         ex_state_pending)"
    using pend ex_aligned(3) ex_state_tags(4) ex_state_pending_fields(2,7) by force
  have s1: "store_func ex_env uint32 0x1000 9 ex_state
      = store_at ex_env uint32 (hit_ptr ex_state 0x1000) (to_reg uint32 9) ex_state"
    using at1 ex_aligned(1) ex_state_tags(7) by blast
  have s2: "store_func ex_env uint32 0x5000 9 ex_state =
           (let d = to_reg uint32 9;
                m = trigger_match ex_proc OPERATION_STORE 0x5000 d;
                t = \<lparr>tm_index = m, tm_operation = OPERATION_STORE, tm_address = 0x5000, tm_data = d\<rparr>;
                s1 = log_call (Call_trigger_match OPERATION_STORE 0x5000 d) ex_state
            in if m = - 1 then store_at ex_env uint32 (hit_ptr ex_state 0x5000) d s1
               else if mcontrol_timing ex_proc m = 0 then (Inl (trigger_matched t), s1)
               else (Inl (trigger_matched t), s1\<lparr>matched_trigger := Some t\<rparr>))"
    using at5 ex_aligned(5) ex_state_tags(12) ex_state_fields(1,2) by blast
  have s3: "store_func ex_env uint32 0x3000 9 ex_state_pending
      = store_at ex_env uint32 (hit_ptr ex_state_pending 0x3000) (to_reg uint32 9) ex_state_pending"
    using pend ex_aligned(3) ex_state_tags(10) ex_state_pending_fields(2,8) by force
  have s4: "store_func ex_env uint32 0x2000 9 ex_state =
           store_slow_path ex_env 0x2000 (sizeof uint32) (bytes_of (to_reg uint32 9) (sizeof uint32))
             (log_call (Call_store_slow_path 0x2000 (sizeof uint32)
                          (bytes_of (to_reg uint32 9) (sizeof uint32))) ex_state)"
    using at2 ex_aligned(2) ex_state_tags(8,9) by blast
  have f1: "translate_insn_addr ex_env 0x1000 ex_state = (Inr (hit_ptr ex_state 0x1000), ex_state)"
    using at1 ex_state_tags(13) by blast
  have f2: "translate_insn_addr ex_env 0x5000 ex_state =
           (let d = deref uint16 (mem ex_state) (hit_ptr ex_state 0x5000);
                m = trigger_match ex_proc OPERATION_EXECUTE 0x5000 d;
                t = \<lparr>tm_index = m, tm_operation = OPERATION_EXECUTE, tm_address = 0x5000, tm_data = d\<rparr>;
                s1 = log_call (Call_trigger_match OPERATION_EXECUTE 0x5000 d) ex_state
            in if m \<ge> 0 then (Inl (trigger_matched t), s1) else (Inr (hit_ptr ex_state 0x5000), s1))"
    using at5 ex_state_tags(18) ex_state_fields(1) by blast
  have f3: "translate_insn_addr ex_env 0x2000 ex_state
      = fetch_slow_path ex_env 0x2000 (log_call (Call_fetch_slow_path 0x2000) ex_state)"
    using at2 ex_state_tags(15,16) by blast
  have v: "to_reg uint32 9 = 9" "bytes_of 9 4 = [9, 0, 0, 0]"
    by (simp_all add: to_reg_def bytes_of_def upt_rec)
  show ?thesis
    unfolding l1 l2 l3 l4 s1 s2 s3 s4 f1 f2 f3
    by (simp add: ex_deref ex_env_slow bind_res_def ex_proc_triggers ex_state_pending_fields v)
qed

text \<open>
  The claim as it was stated also promises a trigger match for a load that finds a
  matched trigger pending, or no processor. There is none: the load returns the data and
  the list of calls stays empty, although trigger 0 matches the address.
\<close>

theorem tlb_fast_path_counterexample:
  "\<not> misaligned uint32 0x3000
   \<and> tlb_load_tag ex_state_pending (slot_of 0x3000) = (vpn_of 0x3000 OR TLB_CHECK_TRIGGERS)
   \<and> trigger_match ex_proc OPERATION_LOAD 0x3000
        (deref uint32 (mem ex_state_pending) (hit_ptr ex_state_pending 0x3000)) = 0
   \<and> load_func ex_env uint32 0x3000 ex_state_pending = (Inr 0, ex_state_pending)
   \<and> calls (snd (load_func ex_env uint32 0x3000 ex_state_pending)) = []
   \<and> tlb_load_tag ex_state_noproc (slot_of 0x3000) = (vpn_of 0x3000 OR TLB_CHECK_TRIGGERS)
   \<and> load_func ex_env uint32 0x3000 ex_state_noproc = (Inr 0, ex_state_noproc)
   \<and> calls (snd (load_func ex_env uint32 0x3000 ex_state_noproc)) = []"
proof -
  have a: "load_func ex_env uint32 0x3000 ex_state_pending = (Inr 0, ex_state_pending)"
    using load_trigger_skipped [of uint32 "0x3000" ex_state_pending ex_env]
    by (simp add: ex_aligned ex_state_tags ex_state_pending_fields ex_deref)
  have b: "load_func ex_env uint32 0x3000 ex_state_noproc = (Inr 0, ex_state_noproc)"
    using load_trigger_skipped [of uint32 "0x3000" ex_state_noproc ex_env]
    by (simp add: ex_aligned ex_state_tags ex_state_noproc_fields ex_deref)
  show ?thesis
    unfolding a b
    by (simp add: ex_aligned ex_state_tags ex_state_pending_fields ex_state_noproc_fields
        ex_proc_triggers)
qed

section \<open>The permission check\<close>

text \<open>
  C3: \<^verbatim>\<open>check_permission\<close> returns at once for every address and access type. It throws
  nothing, and so neither does the statement that calls it; it has no state to change,
  since it only reads. What follows its first statement never runs.
\<close>

theorem check_permission_bypassed:
  "check_permission e s vaddr ty = Return
   \<and> check_permission e s vaddr ty \<noteq> Throw t
   \<and> permission_stmt ev s vaddr ty \<noteq> Throw t"
  by (simp add: check_permission_def then_stmt_Return permission_stmt_eq)

lemma ex_get_field:
  "get_field ex_enc (mstatus ex_proc) (MSTATUS_VM ex_enc) = 9"
  "get_field ex_enc (mstatus ex_proc) (MSTATUS_MPRV ex_enc) = 0"
  "get_field ex_enc (mstatus ex_proc) (MSTATUS_PUM ex_enc) = 0"
  "get_field ex_enc (mstatus ex_proc) (MSTATUS_MXR ex_enc) = 0"
  by (simp_all add: ex_enc_def ex_proc_def)

lemma ex_body_store:
  "check_permission_body ex_enc ex_state 0x1000 STORE = Throw (trap_store_access_fault 0x1000)"
  by (simp add: check_permission_body_def ex_state_fields ex_get_field Let_def)
    (simp add: ex_enc_def ex_proc_def ex_state_def PGSHIFT_def)

theorem check_permission_bypassed_witness:
  "check_permission ex_enc ex_state 0x1000 STORE = Return
   \<and> check_permission_body ex_enc ex_state 0x1000 STORE = Throw (trap_store_access_fault 0x1000)
   \<and> permission_stmt ex_env ex_state 0x1000 STORE = Return"
  using check_permission_bypassed [of ex_enc ex_state "0x1000" STORE]
  by (simp add: ex_body_store permission_stmt_eq ex_state_fields)

section \<open>Stores in time-warp mode\<close>

lemma store_at_timewarp:
  "timewarp s \<Longrightarrow> proc s = Some pr \<Longrightarrow>
   store_at ev ty q v s =
     (Inr (), s\<lparr>mem := assign ty (mem s) q v,
               trace_clks := trace_clks s @ [timestamp pr],
               traces := traces s @ [\<lparr>t_len = sizeof ty, t_addr = mem_to_addr ev q,
                                      t_data = deref ty (mem s) q\<rparr>],
               calls := calls s @ [Call_record (sizeof ty) (mem_to_addr ev q) (deref ty (mem s) q),
                                   Mem_write q (bytes_of v (sizeof ty))]\<rparr>)"
  by (simp add: store_at_def mmu_record_def bind_res_def log_call_def Let_def)

lemma store_at_plain:
  "\<not> timewarp s \<Longrightarrow>
   store_at ev ty q v s =
     (Inr (), s\<lparr>mem := assign ty (mem s) q v,
               calls := calls s @ [Mem_write q (bytes_of v (sizeof ty))]\<rparr>)"
  by (simp add: store_at_def bind_res_def log_call_def)

lemma store_at_no_proc:
  "timewarp s \<Longrightarrow> proc s = None \<Longrightarrow>
   store_at ev ty q v s =
     (Inl null_dereference,
      log_call (Call_record (sizeof ty) (mem_to_addr ev q) (deref ty (mem s) q)) s)"
  by (simp add: store_at_def mmu_record_def bind_res_def Let_def)

text \<open>
  C5: in time-warp mode, a store that hits in the store TLB and is carried out calls
  \<^verbatim>\<open>record\<close> with the width, the physical address \<^verbatim>\<open>mem_to_addr\<close> gives for the target,
  and the value the target held in the state the store began in; the write comes after
  it in the list of calls. The history grows by that one entry, stamped with the
  processor's timestamp. This covers the plain hit, the trigger-checking hit with a
  trigger pending, and the trigger-checking hit where no trigger matches. Where a trigger
  matches, the store throws, and memory and history are as they were. Without a processor
  there is no timestamp to read: \<^verbatim>\<open>record\<close> is called with the same arguments, and the
  store ends there, before any write.
\<close>

theorem store_records_before_write:
  "timewarp s \<and> \<not> misaligned ty a \<longrightarrow>
     (let q = hit_ptr s a; n = sizeof ty; old = deref ty (mem s) q; new = to_reg ty v;
          recorded = (\<lambda>pr s0. (Inr (),
             s0\<lparr>mem := assign ty (mem s) q new,
                trace_clks := trace_clks s @ [timestamp pr],
                traces := traces s @ [\<lparr>t_len = n, t_addr = mem_to_addr ev q, t_data = old\<rparr>],
                calls := calls s0 @ [Call_record n (mem_to_addr ev q) old,
                                     Mem_write q (bytes_of new n)]\<rparr>))
      in (proc s = Some pr \<and> tlb_store_tag s (slot_of a) = vpn_of a \<longrightarrow>
            store_func ev ty a v s = recorded pr s)
       \<and> (proc s = Some pr \<and> tlb_store_tag s (slot_of a) = (vpn_of a OR TLB_CHECK_TRIGGERS)
            \<and> matched_trigger s \<noteq> None \<longrightarrow>
            store_func ev ty a v s = recorded pr s)
       \<and> (proc s = Some pr \<and> tlb_store_tag s (slot_of a) = (vpn_of a OR TLB_CHECK_TRIGGERS)
            \<and> matched_trigger s = None \<and> trigger_match pr OPERATION_STORE a new = - 1 \<longrightarrow>
            store_func ev ty a v s
              = recorded pr (log_call (Call_trigger_match OPERATION_STORE a new) s))
       \<and> (proc s = Some pr \<and> tlb_store_tag s (slot_of a) = (vpn_of a OR TLB_CHECK_TRIGGERS)
            \<and> matched_trigger s = None \<and> trigger_match pr OPERATION_STORE a new \<noteq> - 1 \<longrightarrow>
            (\<exists>t s'. store_func ev ty a v s = (Inl (trigger_matched t), s')
                    \<and> mem s' = mem s \<and> traces s' = traces s \<and> trace_clks s' = trace_clks s))
       \<and> (proc s = None
            \<and> (tlb_store_tag s (slot_of a) = vpn_of a
                 \<or> tlb_store_tag s (slot_of a) = (vpn_of a OR TLB_CHECK_TRIGGERS)) \<longrightarrow>
            store_func ev ty a v s
              = (Inl null_dereference, log_call (Call_record n (mem_to_addr ev q) old) s)))"
  unfolding Let_def
  apply (intro conjI impI)
  subgoal by (simp add: store_func_cases store_at_timewarp)
  subgoal by (simp add: store_trigger_skipped store_at_timewarp)
  subgoal
    using store_trigger_checked [of ty a s pr ev v]
    by (simp add: store_at_timewarp Let_def)
  subgoal
    using store_trigger_checked [of ty a s pr ev v]
    by (simp add: Let_def)
  subgoal
    using store_trigger_skipped [of ty a s ev v]
    by (auto simp add: store_func_cases store_at_no_proc)
  done

lemma ex_store_values:
  "to_reg uint32 9 = 9" "bytes_of 9 4 = [9, 0, 0, 0]"
  "to_reg uint8 0xAB = 0xAB" "bytes_of 0xAB 1 = [0xAB]"
  "deref uint8 (mem ex_state) (hit_ptr ex_state 0x1000) = 0x13"
  "hit_ptr ex_state 0x1000 = 0x101000"
  "deref uint8 (mem ex_state) 0x101000 = 0x13"
  "deref uint32 (mem ex_state) 0x101000 = 0x13"
  "bytes_of 0xAB (Suc 0) = [0xAB]"
  by (simp_all add: to_reg_def bytes_of_def upt_rec deref_def read_bytes_def ex_state_fields)

theorem store_records_before_write_witness:
  "store_func ex_env uint32 0x1000 9 ex_state
     = (Inr (), ex_state\<lparr>mem := assign uint32 (mem ex_state) 0x101000 9,
                         trace_clks := [7],
                         traces := [\<lparr>t_len = 4, t_addr = 0x1000, t_data = 0x13\<rparr>],
                         calls := [Call_record 4 0x1000 0x13, Mem_write 0x101000 [9, 0, 0, 0]]\<rparr>)"
proof -
  have h: "timewarp ex_state \<and> \<not> misaligned uint32 0x1000"
    by (simp add: ex_state_fields ex_aligned)
  have t: "proc ex_state = Some ex_proc \<and> tlb_store_tag ex_state (slot_of 0x1000) = vpn_of 0x1000"
    by (simp add: ex_state_fields ex_state_tags)
  from store_records_before_write [of ex_state uint32 "0x1000" 9 ex_env ex_proc] h t
  have "store_func ex_env uint32 0x1000 9 ex_state
     = (Inr (), ex_state\<lparr>mem := assign uint32 (mem ex_state) (hit_ptr ex_state 0x1000) (to_reg uint32 9),
          trace_clks := trace_clks ex_state @ [timestamp ex_proc],
          traces := traces ex_state @ [\<lparr>t_len = sizeof uint32,
              t_addr = mem_to_addr ex_env (hit_ptr ex_state 0x1000),
              t_data = deref uint32 (mem ex_state) (hit_ptr ex_state 0x1000)\<rparr>],
          calls := calls ex_state @ [Call_record (sizeof uint32)
                (mem_to_addr ex_env (hit_ptr ex_state 0x1000))
                (deref uint32 (mem ex_state) (hit_ptr ex_state 0x1000)),
               Mem_write (hit_ptr ex_state 0x1000) (bytes_of (to_reg uint32 9) (sizeof uint32))]\<rparr>)"
    unfolding Let_def by blast
  then show ?thesis
    by (simp add: ex_deref ex_store_values ex_env_slow ex_state_fields(4-7) ex_proc_def)
qed

text \<open>
  C2 fails on the code. The machine is in supervisor mode under Sv39 with time-warp mode
  on; the permission record of page 1 is valid and readable and not writable, and the
  store TLB holds the page. The statements of \<^verbatim>\<open>check_permission\<close> after its \<^verbatim>\<open>return\<close> would
  throw \<^verbatim>\<open>trap_store_access_fault\<close> for a store to \<open>0x1000\<close>. The store returns normally
  and the byte is written.
\<close>

theorem store_to_read_only_page:
  "tag_map (dtlb ex_state) (vpn_of 0x1000) = Some 0
   \<and> meta (dtlb ex_state) 0 AND PTE_W ex_enc = 0
   \<and> timewarp ex_state
   \<and> check_permission_body ex_enc ex_state 0x1000 STORE = Throw (trap_store_access_fault 0x1000)
   \<and> load_func ex_env uint8 0x1000 ex_state = (Inr 0x13, ex_state)
   \<and> store_func ex_env uint8 0x1000 0xAB ex_state
       = (Inr (), ex_state\<lparr>mem := assign uint8 (mem ex_state) 0x101000 0xAB,
                           trace_clks := [7],
                           traces := [\<lparr>t_len = 1, t_addr = 0x1000, t_data = 0x13\<rparr>],
                           calls := [Call_record 1 0x1000 0x13, Mem_write 0x101000 [0xAB]]\<rparr>)
   \<and> assign uint8 (mem ex_state) 0x101000 0xAB 0x101000 = 0xAB"
proof -
  have p: "tag_map (dtlb ex_state) (vpn_of 0x1000) = Some 0"
    "meta (dtlb ex_state) 0 AND PTE_W ex_enc = 0"
    by (simp_all add: ex_state_def ex_enc_def PGSHIFT_def)
  have l: "load_func ex_env uint8 0x1000 ex_state = (Inr 0x13, ex_state)"
    by (simp add: load_func_cases ex_aligned ex_state_tags ex_store_values(5))
  have s: "store_func ex_env uint8 0x1000 0xAB ex_state
       = (Inr (), ex_state\<lparr>mem := assign uint8 (mem ex_state) 0x101000 0xAB,
                           trace_clks := [7],
                           traces := [\<lparr>t_len = 1, t_addr = 0x1000, t_data = 0x13\<rparr>],
                           calls := [Call_record 1 0x1000 0x13, Mem_write 0x101000 [0xAB]]\<rparr>)"
    using store_at_timewarp [of ex_state ex_proc ex_env uint8 "hit_ptr ex_state 0x1000" "0xAB"]
    by (simp add: store_func_cases ex_aligned ex_state_tags ex_store_values ex_env_slow
        ex_state_fields(1-7) ex_proc_def)
  have w: "assign uint8 (mem ex_state) 0x101000 0xAB 0x101000 = 0xAB"
    by (simp add: assign_def bytes_of_def upt_rec)
  show ?thesis
    using p l s w ex_body_store by (simp add: ex_state_fields(3))
qed

section \<open>Triggers\<close>

text \<open>
  C7, as the code has it. With a processor attached, \<^verbatim>\<open>trigger_exception\<close> returns
  \<^verbatim>\<open>NULL\<close> when no trigger matches (index \<open>-1\<close>), throws the trigger-matched exception
  when the matched trigger has timing 0, and returns a new object otherwise. A load or a
  store that evaluates the triggers at a trigger-checking entry completes normally in
  the first case and is aborted in the second; in the third it keeps the object in
  \<^verbatim>\<open>matched_trigger\<close> and throws it, the load having read its data and the store without
  having written. An instruction fetch at a trigger-checking entry does not look at the
  timing: it throws for every match (index \<open>\<ge> 0\<close>) and returns the pointer otherwise.
\<close>

theorem trigger_exception_timing:
  "proc s = Some p \<longrightarrow>
     (let m = trigger_match p operation a d;
          t = \<lparr>tm_index = m, tm_operation = operation, tm_address = a, tm_data = d\<rparr>;
          s1 = log_call (Call_trigger_match operation a d) s
      in (m = - 1 \<longrightarrow> trigger_exception operation a d s = (Inr None, s1))
       \<and> (m \<noteq> - 1 \<and> mcontrol_timing p m = 0 \<longrightarrow>
            trigger_exception operation a d s = (Inl (trigger_matched t), s1))
       \<and> (m \<noteq> - 1 \<and> mcontrol_timing p m \<noteq> 0 \<longrightarrow>
            trigger_exception operation a d s = (Inr (Some t), s1)))
   \<and> (\<not> misaligned ty a \<and> matched_trigger s = None
        \<and> tlb_load_tag s (slot_of a) = (vpn_of a OR TLB_CHECK_TRIGGERS) \<longrightarrow>
        (let v = deref ty (mem s) (hit_ptr s a);
             m = trigger_match p OPERATION_LOAD a v;
             t = \<lparr>tm_index = m, tm_operation = OPERATION_LOAD, tm_address = a, tm_data = v\<rparr>;
             s1 = log_call (Call_trigger_match OPERATION_LOAD a v) s
         in (m = - 1 \<longrightarrow> load_func ev ty a s = (Inr v, s1))
          \<and> (m \<noteq> - 1 \<and> mcontrol_timing p m = 0 \<longrightarrow>
               load_func ev ty a s = (Inl (trigger_matched t), s1))
          \<and> (m \<noteq> - 1 \<and> mcontrol_timing p m \<noteq> 0 \<longrightarrow>
               load_func ev ty a s = (Inl (trigger_matched t), s1\<lparr>matched_trigger := Some t\<rparr>))))
   \<and> (\<not> misaligned ty a \<and> matched_trigger s = None
        \<and> tlb_store_tag s (slot_of a) = (vpn_of a OR TLB_CHECK_TRIGGERS) \<longrightarrow>
        (let v = to_reg ty w;
             m = trigger_match p OPERATION_STORE a v;
             t = \<lparr>tm_index = m, tm_operation = OPERATION_STORE, tm_address = a, tm_data = v\<rparr>;
             s1 = log_call (Call_trigger_match OPERATION_STORE a v) s
         in (m = - 1 \<longrightarrow> store_func ev ty a w s = store_at ev ty (hit_ptr s a) v s1)
          \<and> (m \<noteq> - 1 \<and> mcontrol_timing p m = 0 \<longrightarrow>
               store_func ev ty a w s = (Inl (trigger_matched t), s1))
          \<and> (m \<noteq> - 1 \<and> mcontrol_timing p m \<noteq> 0 \<longrightarrow>
               store_func ev ty a w s = (Inl (trigger_matched t), s1\<lparr>matched_trigger := Some t\<rparr>))))
   \<and> (tlb_insn_tag s (slot_of a) = (vpn_of a OR TLB_CHECK_TRIGGERS) \<longrightarrow>
        (let v = deref uint16 (mem s) (hit_ptr s a);
             m = trigger_match p OPERATION_EXECUTE a v;
             t = \<lparr>tm_index = m, tm_operation = OPERATION_EXECUTE, tm_address = a, tm_data = v\<rparr>;
             s1 = log_call (Call_trigger_match OPERATION_EXECUTE a v) s
         in (m \<ge> 0 \<longrightarrow> translate_insn_addr ev a s = (Inl (trigger_matched t), s1))
          \<and> (m < 0 \<longrightarrow> translate_insn_addr ev a s = (Inr (hit_ptr s a), s1))))"
  apply (intro impI conjI)
  subgoal by (simp add: trigger_exception_proc Let_def)
  subgoal using load_trigger_checked [of ty a s p ev] by (simp add: Let_def)
  subgoal using store_trigger_checked [of ty a s p ev w] by (simp add: Let_def)
  subgoal by (simp add: translate_insn_addr_cases vpn_no_trigger_bit Let_def)
  done

lemma ex_insn_tags:
  "tlb_insn_tag ex_state (slot_of 0x4000) = (vpn_of 0x4000 OR TLB_CHECK_TRIGGERS)"
  "deref uint16 (mem ex_state) (hit_ptr ex_state 0x4000) = 0"
  by (simp_all add: tlb_slot_def PGSHIFT_def TLB_ENTRIES_def TLB_CHECK_TRIGGERS_def
      ex_state_def ex_tags_def deref_def to_reg_def read_bytes_def upt_rec)

theorem trigger_exception_timing_witness:
  "trigger_exception OPERATION_LOAD 0x5000 0 ex_state
     = (Inr None, log_call (Call_trigger_match OPERATION_LOAD 0x5000 0) ex_state)
   \<and> trigger_exception OPERATION_LOAD 0x3000 0 ex_state
     = (Inl (trigger_matched \<lparr>tm_index = 0, tm_operation = OPERATION_LOAD,
                              tm_address = 0x3000, tm_data = 0\<rparr>),
        log_call (Call_trigger_match OPERATION_LOAD 0x3000 0) ex_state)
   \<and> trigger_exception OPERATION_LOAD 0x4000 0 ex_state
     = (Inr (Some \<lparr>tm_index = 1, tm_operation = OPERATION_LOAD,
                    tm_address = 0x4000, tm_data = 0\<rparr>),
        log_call (Call_trigger_match OPERATION_LOAD 0x4000 0) ex_state)
   \<and> load_func ex_env uint32 0x5000 ex_state
     = (Inr 0, log_call (Call_trigger_match OPERATION_LOAD 0x5000 0) ex_state)
   \<and> load_func ex_env uint32 0x4000 ex_state
     = (Inl (trigger_matched \<lparr>tm_index = 1, tm_operation = OPERATION_LOAD,
                              tm_address = 0x4000, tm_data = 0\<rparr>),
        (log_call (Call_trigger_match OPERATION_LOAD 0x4000 0) ex_state)
          \<lparr>matched_trigger := Some \<lparr>tm_index = 1, tm_operation = OPERATION_LOAD,
                                     tm_address = 0x4000, tm_data = 0\<rparr>\<rparr>)
   \<and> store_func ex_env uint32 0x3000 9 ex_state
     = (Inl (trigger_matched \<lparr>tm_index = 0, tm_operation = OPERATION_STORE,
                              tm_address = 0x3000, tm_data = 9\<rparr>),
        log_call (Call_trigger_match OPERATION_STORE 0x3000 9) ex_state)
   \<and> translate_insn_addr ex_env 0x5000 ex_state
     = (Inr (hit_ptr ex_state 0x5000),
        log_call (Call_trigger_match OPERATION_EXECUTE 0x5000 0) ex_state)"
proof -
  note t3 = trigger_exception_timing [of ex_state ex_proc OPERATION_LOAD "0x3000" 0 uint32 ex_env 9]
  note t4 = trigger_exception_timing [of ex_state ex_proc OPERATION_LOAD "0x4000" 0 uint32 ex_env 9]
  note t5 = trigger_exception_timing [of ex_state ex_proc OPERATION_LOAD "0x5000" 0 uint32 ex_env 9]
  show ?thesis
    using t3 t4 t5
    by (simp add: ex_state_fields(1,2) ex_aligned ex_state_tags ex_deref ex_proc_triggers
        ex_store_values(1) ex_insn_tags Let_def)
qed

text \<open>
  The claim as it was stated speaks of every access on the trigger-checking path, and
  of an exception raised after the access completes. Trigger 1 has timing 1 (after) and
  matches address \<open>0x4000\<close>. The fetch there throws at once, and no object is returned to
  anyone. The store there throws what \<^verbatim>\<open>trigger_exception\<close> returned and memory is as it
  was: the exception is raised before the store is done.
\<close>

theorem trigger_exception_timing_counterexample:
  "mcontrol_timing ex_proc (trigger_match ex_proc OPERATION_EXECUTE 0x4000 0) \<noteq> 0
   \<and> tlb_insn_tag ex_state (slot_of 0x4000) = (vpn_of 0x4000 OR TLB_CHECK_TRIGGERS)
   \<and> translate_insn_addr ex_env 0x4000 ex_state
     = (Inl (trigger_matched \<lparr>tm_index = 1, tm_operation = OPERATION_EXECUTE,
                              tm_address = 0x4000, tm_data = 0\<rparr>),
        log_call (Call_trigger_match OPERATION_EXECUTE 0x4000 0) ex_state)
   \<and> mcontrol_timing ex_proc (trigger_match ex_proc OPERATION_STORE 0x4000 9) \<noteq> 0
   \<and> tlb_store_tag ex_state (slot_of 0x4000) = (vpn_of 0x4000 OR TLB_CHECK_TRIGGERS)
   \<and> store_func ex_env uint32 0x4000 9 ex_state
     = (Inl (trigger_matched \<lparr>tm_index = 1, tm_operation = OPERATION_STORE,
                              tm_address = 0x4000, tm_data = 9\<rparr>),
        (log_call (Call_trigger_match OPERATION_STORE 0x4000 9) ex_state)
          \<lparr>matched_trigger := Some \<lparr>tm_index = 1, tm_operation = OPERATION_STORE,
                                     tm_address = 0x4000, tm_data = 9\<rparr>\<rparr>)
   \<and> mem (snd (store_func ex_env uint32 0x4000 9 ex_state)) = mem ex_state"
proof -
  have f: "translate_insn_addr ex_env 0x4000 ex_state
     = (Inl (trigger_matched \<lparr>tm_index = 1, tm_operation = OPERATION_EXECUTE,
                              tm_address = 0x4000, tm_data = 0\<rparr>),
        log_call (Call_trigger_match OPERATION_EXECUTE 0x4000 0) ex_state)"
    by (simp add: translate_insn_addr_cases ex_insn_tags vpn_no_trigger_bit ex_state_fields(1)
        ex_proc_triggers)
  have st: "store_func ex_env uint32 0x4000 9 ex_state
     = (Inl (trigger_matched \<lparr>tm_index = 1, tm_operation = OPERATION_STORE,
                              tm_address = 0x4000, tm_data = 9\<rparr>),
        (log_call (Call_trigger_match OPERATION_STORE 0x4000 9) ex_state)
          \<lparr>matched_trigger := Some \<lparr>tm_index = 1, tm_operation = OPERATION_STORE,
                                     tm_address = 0x4000, tm_data = 9\<rparr>\<rparr>)"
    using store_trigger_checked [of uint32 "0x4000" ex_state ex_proc ex_env 9]
    by (simp add: ex_aligned ex_state_tags ex_state_fields(1,2) ex_proc_triggers
        ex_store_values(1) Let_def)
  show ?thesis
    unfolding f st by (simp add: ex_proc_triggers ex_insn_tags ex_state_tags)
qed

subsection \<open>A pending trigger\<close>

lemma store_at_no_trigger_call:
  "Call_trigger_match operation x d \<in> set (calls (snd (store_at ev ty q v s)))
     \<longleftrightarrow> Call_trigger_match operation x d \<in> set (calls s)"
proof (cases "timewarp s")
  case False
  then show ?thesis by (simp add: store_at_plain)
next
  case True
  then show ?thesis
    by (cases "proc s") (simp_all add: store_at_no_proc store_at_timewarp)
qed

lemma store_at_matched_trigger:
  "matched_trigger (snd (store_at ev ty q v s)) = matched_trigger s"
proof (cases "timewarp s")
  case False
  then show ?thesis by (simp add: store_at_plain)
next
  case True
  then show ?thesis
    by (cases "proc s") (simp_all add: store_at_no_proc store_at_timewarp)
qed

text \<open>
  C8, as the code has it. With a matched trigger pending, a load at a
  trigger-checking entry returns the data and leaves the state alone, and a store there
  does what a store at a plain entry does: no trigger is matched, and the pending trigger
  stays. An instruction fetch at a trigger-checking entry matches the triggers whatever
  \<^verbatim>\<open>matched_trigger\<close> holds.
\<close>

theorem pending_trigger_skips_check:
  "(matched_trigger s \<noteq> None \<and> \<not> misaligned ty a \<longrightarrow>
      (tlb_load_tag s (slot_of a) = (vpn_of a OR TLB_CHECK_TRIGGERS) \<longrightarrow>
         load_func ev ty a s = (Inr (deref ty (mem s) (hit_ptr s a)), s))
    \<and> (tlb_store_tag s (slot_of a) = (vpn_of a OR TLB_CHECK_TRIGGERS) \<longrightarrow>
         store_func ev ty a v s = store_at ev ty (hit_ptr s a) (to_reg ty v) s
       \<and> matched_trigger (snd (store_func ev ty a v s)) = matched_trigger s
       \<and> (\<forall>operation x d.
             Call_trigger_match operation x d \<in> set (calls (snd (store_func ev ty a v s)))
             \<longrightarrow> Call_trigger_match operation x d \<in> set (calls s))))
   \<and> (tlb_insn_tag s (slot_of a) = (vpn_of a OR TLB_CHECK_TRIGGERS) \<and> proc s = Some p \<longrightarrow>
        calls (snd (translate_insn_addr ev a s))
          = calls s @ [Call_trigger_match OPERATION_EXECUTE a (deref uint16 (mem s) (hit_ptr s a))])"
  apply (intro conjI impI allI)
  subgoal by (rule load_trigger_skipped) simp_all
  subgoal by (rule store_trigger_skipped) simp_all
  subgoal by (simp add: store_trigger_skipped store_at_matched_trigger)
  subgoal by (simp add: store_trigger_skipped store_at_no_trigger_call)
  subgoal by (simp add: translate_insn_addr_cases vpn_no_trigger_bit)
  done

theorem pending_trigger_skips_check_witness:
  "load_func ex_env uint32 0x3000 ex_state_pending = (Inr 0, ex_state_pending)
   \<and> store_func ex_env uint32 0x3000 9 ex_state_pending
       = store_at ex_env uint32 (hit_ptr ex_state_pending 0x3000) 9 ex_state_pending
   \<and> matched_trigger (snd (store_func ex_env uint32 0x3000 9 ex_state_pending)) = Some ex_trigger
   \<and> calls (snd (translate_insn_addr ex_env 0x3000 ex_state))
       = [Call_trigger_match OPERATION_EXECUTE 0x3000 0]"
proof -
  have h: "matched_trigger ex_state_pending \<noteq> None \<and> \<not> misaligned uint32 0x3000"
    by (simp add: ex_state_pending_fields ex_aligned)
  have tl: "tlb_load_tag ex_state_pending (slot_of 0x3000) = (vpn_of 0x3000 OR TLB_CHECK_TRIGGERS)"
    and ts: "tlb_store_tag ex_state_pending (slot_of 0x3000) = (vpn_of 0x3000 OR TLB_CHECK_TRIGGERS)"
    by (simp_all add: ex_state_pending_fields ex_state_tags)
  have ti: "tlb_insn_tag ex_state (slot_of 0x3000) = (vpn_of 0x3000 OR TLB_CHECK_TRIGGERS)
      \<and> proc ex_state = Some ex_proc"
    by (simp add: ex_state_tags ex_state_fields)
  note pend = pending_trigger_skips_check [of ex_state_pending uint32 "0x3000" ex_env 9]
  have l: "load_func ex_env uint32 0x3000 ex_state_pending
      = (Inr (deref uint32 (mem ex_state_pending) (hit_ptr ex_state_pending 0x3000)),
         ex_state_pending)"
    using pend h tl by blast
  have st: "store_func ex_env uint32 0x3000 9 ex_state_pending
       = store_at ex_env uint32 (hit_ptr ex_state_pending 0x3000) (to_reg uint32 9)
           ex_state_pending"
    and m: "matched_trigger (snd (store_func ex_env uint32 0x3000 9 ex_state_pending))
       = matched_trigger ex_state_pending"
    using pend h ts by blast+
  have f: "calls (snd (translate_insn_addr ex_env 0x3000 ex_state))
      = calls ex_state @ [Call_trigger_match OPERATION_EXECUTE 0x3000
                            (deref uint16 (mem ex_state) (hit_ptr ex_state 0x3000))]"
    using pending_trigger_skips_check [of ex_state uint32 "0x3000" ex_env 9 ex_proc] ti
    by blast
  from l have l': "load_func ex_env uint32 0x3000 ex_state_pending = (Inr 0, ex_state_pending)"
    by (simp add: ex_state_pending_fields ex_deref)
  from st have st': "store_func ex_env uint32 0x3000 9 ex_state_pending
       = store_at ex_env uint32 (hit_ptr ex_state_pending 0x3000) 9 ex_state_pending"
    by (simp add: ex_store_values(1))
  from m have m': "matched_trigger (snd (store_func ex_env uint32 0x3000 9 ex_state_pending))
       = Some ex_trigger"
    by (simp add: ex_state_pending_fields)
  from f have f': "calls (snd (translate_insn_addr ex_env 0x3000 ex_state))
       = [Call_trigger_match OPERATION_EXECUTE 0x3000 0]"
    by (simp add: ex_deref ex_state_fields(4))
  show ?thesis
    by (intro conjI) (rule l' st' m' f')+
qed

text \<open>
  The claim as it was stated includes instruction fetches. With a trigger pending, the
  fetch at \<open>0x3000\<close> still calls \<^verbatim>\<open>trigger_match\<close>, and throws what it found.
\<close>

theorem pending_trigger_skips_check_counterexample:
  "matched_trigger ex_state_pending = Some ex_trigger
   \<and> tlb_insn_tag ex_state_pending (slot_of 0x3000) = (vpn_of 0x3000 OR TLB_CHECK_TRIGGERS)
   \<and> translate_insn_addr ex_env 0x3000 ex_state_pending
       = (Inl (trigger_matched \<lparr>tm_index = 0, tm_operation = OPERATION_EXECUTE,
                                tm_address = 0x3000, tm_data = 0\<rparr>),
          log_call (Call_trigger_match OPERATION_EXECUTE 0x3000 0) ex_state_pending)
   \<and> calls (snd (translate_insn_addr ex_env 0x3000 ex_state_pending))
       = [Call_trigger_match OPERATION_EXECUTE 0x3000 0]"
proof -
  have f: "translate_insn_addr ex_env 0x3000 ex_state_pending
       = (Inl (trigger_matched \<lparr>tm_index = 0, tm_operation = OPERATION_EXECUTE,
                                tm_address = 0x3000, tm_data = 0\<rparr>),
          log_call (Call_trigger_match OPERATION_EXECUTE 0x3000 0) ex_state_pending)"
    by (simp add: translate_insn_addr_cases ex_state_pending_fields ex_state_tags
        vpn_no_trigger_bit ex_deref ex_proc_triggers)
  show ?thesis
    unfolding f by (simp add: ex_state_pending_fields ex_state_tags)
qed

section \<open>Atomic memory operations\<close>

lemma amo_catch_no_load_access_fault:
  "amo_catch r \<noteq> (Inl (trap_load_access_fault b), s')"
  by (auto simp add: amo_catch_def split: prod.splits sum.splits trap.splits)

lemma amo_catch_load_access_fault:
  "amo_catch (Inl (trap_load_access_fault b), s) = (Inl (trap_store_access_fault b), s)"
  by (simp add: amo_catch_def)

lemma amo_catch_misaligned:
  "amo_catch r = (Inl (trap_load_address_misaligned b), s')
     \<Longrightarrow> r = (Inl (trap_load_address_misaligned b), s')"
  by (auto simp add: amo_catch_def split: prod.splits sum.splits trap.splits)

lemma trigger_exception_no_misaligned:
  "trigger_exception operation a d s \<noteq> (Inl (trap_load_address_misaligned b), s')"
  by (cases "proc s") (simp_all add: trigger_exception_proc trigger_exception_no_proc)

lemma store_at_no_misaligned:
  "store_at ev ty q v s \<noteq> (Inl (trap_load_address_misaligned b), s')"
proof (cases "timewarp s")
  case False
  then show ?thesis by (simp add: store_at_plain)
next
  case True
  then show ?thesis
    by (cases "proc s") (simp_all add: store_at_no_proc store_at_timewarp)
qed

lemma load_func_no_misaligned:
  assumes "\<not> misaligned ty a"
    and "\<forall>x n s0 y s0'. load_slow_path ev x n s0 \<noteq> (Inl (trap_load_address_misaligned y), s0')"
  shows "load_func ev ty a s \<noteq> (Inl (trap_load_address_misaligned b), s')"
proof -
  have t: "bind_res (trigger_exception OPERATION_LOAD a d s) 
             (\<lambda>m s1. case m of
                    Some t \<Rightarrow> (Inl (trigger_matched t), s1\<lparr>matched_trigger := m\<rparr>)
                  | None \<Rightarrow> (Inr d, s1\<lparr>matched_trigger := m\<rparr>))
           \<noteq> (Inl (trap_load_address_misaligned b), s')" for d
    using trigger_exception_no_misaligned [of OPERATION_LOAD a d s b]
    by (auto simp add: bind_res_def split: prod.splits sum.splits option.splits)
  have sl: "bind_res (load_slow_path ev a n s0) (\<lambda>bytes s1. (Inr (g bytes), s1))
           \<noteq> (Inl (trap_load_address_misaligned b), s')" for n s0 and g :: "8 word list \<Rightarrow> reg_t"
    using assms(2) by (auto simp add: bind_res_def split: prod.splits sum.splits)
  show ?thesis
    using assms(1) t sl by (simp add: load_func_cases)
qed

lemma store_func_no_misaligned:
  assumes "\<not> misaligned ty a"
    and "\<forall>x n bs s0 y s0'. store_slow_path ev x n bs s0 \<noteq> (Inl (trap_load_address_misaligned y), s0')"
  shows "store_func ev ty a v s \<noteq> (Inl (trap_load_address_misaligned b), s')"
proof -
  have t: "bind_res (trigger_exception OPERATION_STORE a d s)
               (\<lambda>m s1. case m of
                    Some t \<Rightarrow> (Inl (trigger_matched t), s1\<lparr>matched_trigger := m\<rparr>)
                  | None \<Rightarrow> store_at ev ty (hit_ptr (s1\<lparr>matched_trigger := m\<rparr>) a) d
                             (s1\<lparr>matched_trigger := m\<rparr>))
           \<noteq> (Inl (trap_load_address_misaligned b), s')" for d
    using trigger_exception_no_misaligned [of OPERATION_STORE a d s b]
    by (auto simp add: bind_res_def store_at_no_misaligned split: prod.splits sum.splits option.splits)
  show ?thesis
    using assms t by (simp add: store_func_cases store_at_no_misaligned)
qed

text \<open>
  C6: an AMO at a misaligned address throws \<^verbatim>\<open>trap_store_address_misaligned\<close> with the
  address, and changes nothing. When its load throws \<^verbatim>\<open>trap_load_access_fault\<close>, the AMO
  throws \<^verbatim>\<open>trap_store_access_fault\<close> with the same address, from the state the load left.
  Whatever happens, the AMO throws no \<^verbatim>\<open>trap_load_access_fault\<close>; and it throws no
  \<^verbatim>\<open>trap_load_address_misaligned\<close> either, as long as the slow paths, which are not part
  of the header, throw none: the only alignment check that could is the load's, and the
  AMO has made the same check before.
\<close>

theorem amo_faults_are_store_faults:
  "(misaligned ty a \<longrightarrow> amo_func ev ty a f s = (Inl (trap_store_address_misaligned a), s))
   \<and> (\<not> misaligned ty a \<and> load_func ev ty a s = (Inl (trap_load_access_fault b), s1) \<longrightarrow>
        amo_func ev ty a f s = (Inl (trap_store_access_fault b), s1))
   \<and> amo_func ev ty a f s \<noteq> (Inl (trap_load_access_fault b), s')
   \<and> ((\<forall>x n s0 y s0'. load_slow_path ev x n s0 \<noteq> (Inl (trap_load_address_misaligned y), s0'))
        \<and> (\<forall>x n bs s0 y s0'.
              store_slow_path ev x n bs s0 \<noteq> (Inl (trap_load_address_misaligned y), s0')) \<longrightarrow>
        amo_func ev ty a f s \<noteq> (Inl (trap_load_address_misaligned b), s'))"
proof (intro conjI impI)
  show "misaligned ty a \<Longrightarrow> amo_func ev ty a f s = (Inl (trap_store_address_misaligned a), s)"
    by (simp add: amo_func_def)
  show "\<not> misaligned ty a \<and> load_func ev ty a s = (Inl (trap_load_access_fault b), s1) \<Longrightarrow>
        amo_func ev ty a f s = (Inl (trap_store_access_fault b), s1)"
    by (simp add: amo_func_def bind_res_def amo_catch_load_access_fault)
  show "amo_func ev ty a f s \<noteq> (Inl (trap_load_access_fault b), s')"
    by (simp add: amo_func_def amo_catch_no_load_access_fault)
next
  assume slow: "(\<forall>x n s0 y s0'. load_slow_path ev x n s0 \<noteq> (Inl (trap_load_address_misaligned y), s0'))
        \<and> (\<forall>x n bs s0 y s0'.
              store_slow_path ev x n bs s0 \<noteq> (Inl (trap_load_address_misaligned y), s0'))"
  show "amo_func ev ty a f s \<noteq> (Inl (trap_load_address_misaligned b), s')"
  proof (cases "misaligned ty a")
    case True
    then show ?thesis by (simp add: amo_func_def)
  next
    case False
    show ?thesis
    proof
      assume "amo_func ev ty a f s = (Inl (trap_load_address_misaligned b), s')"
      with False have r: "bind_res (load_func ev ty a s)
             (\<lambda>lhs s1. bind_res (store_func ev ty a (f lhs) s1) (\<lambda>_ s2. (Inr lhs, s2)))
           = (Inl (trap_load_address_misaligned b), s')"
        by (simp add: amo_func_def amo_catch_misaligned)
      obtain r0 s0 where l: "load_func ev ty a s = (r0, s0)"
        by (cases "load_func ev ty a s")
      show False
      proof (cases r0)
        case (Inl t)
        with r l have "load_func ev ty a s = (Inl (trap_load_address_misaligned b), s')"
          by (simp add: bind_res_def)
        with load_func_no_misaligned [OF False conjunct1 [OF slow]] show False by blast
      next
        case (Inr lhs)
        with r l have "bind_res (store_func ev ty a (f lhs) s0) (\<lambda>_ s2. (Inr lhs, s2))
            = (Inl (trap_load_address_misaligned b), s')"
          by (simp add: bind_res_def)
        then have "store_func ev ty a (f lhs) s0 = (Inl (trap_load_address_misaligned b), s')"
          by (auto simp add: bind_res_def split: prod.splits sum.splits)
        with store_func_no_misaligned [OF False conjunct2 [OF slow]] show False by blast
      qed
    qed
  qed
qed

theorem amo_faults_are_store_faults_witness:
  "amo_func ex_env uint32 0x1002 (\<lambda>x. x + 1) ex_state
     = (Inl (trap_store_address_misaligned 0x1002), ex_state)
   \<and> load_func ex_env uint32 0x2000 ex_state
     = (Inl (trap_load_access_fault 0x2000), log_call (Call_load_slow_path 0x2000 4) ex_state)
   \<and> amo_func ex_env uint32 0x2000 (\<lambda>x. x + 1) ex_state
     = (Inl (trap_store_access_fault 0x2000), log_call (Call_load_slow_path 0x2000 4) ex_state)
   \<and> amo_func ex_env uint32 0x2000 (\<lambda>x. x + 1) ex_state
     \<noteq> (Inl (trap_load_access_fault 0x2000), log_call (Call_load_slow_path 0x2000 4) ex_state)
   \<and> amo_func ex_env uint32 0x2000 (\<lambda>x. x + 1) ex_state
     \<noteq> (Inl (trap_load_address_misaligned 0x2000), log_call (Call_load_slow_path 0x2000 4) ex_state)"
proof -
  have m: "misaligned uint32 0x1002"
    by (simp add: misaligned_def)
  have l: "load_func ex_env uint32 0x2000 ex_state
     = (Inl (trap_load_access_fault 0x2000), log_call (Call_load_slow_path 0x2000 4) ex_state)"
    by (simp add: load_func_cases ex_aligned ex_state_tags ex_env_slow bind_res_def)
  have slow: "(\<forall>x n s0 y s0'.
                 load_slow_path ex_env x n s0 \<noteq> (Inl (trap_load_address_misaligned y), s0'))
        \<and> (\<forall>x n bs s0 y s0'.
              store_slow_path ex_env x n bs s0 \<noteq> (Inl (trap_load_address_misaligned y), s0'))"
    by (simp add: ex_env_slow)
  note bad = amo_faults_are_store_faults [of uint32 "0x1002" ex_env "\<lambda>x. x + 1" ex_state]
  note miss = amo_faults_are_store_faults [of uint32 "0x2000" ex_env "\<lambda>x. x + 1" ex_state
      "0x2000" "log_call (Call_load_slow_path 0x2000 4) ex_state"
      "log_call (Call_load_slow_path 0x2000 4) ex_state"]
  have 1: "amo_func ex_env uint32 0x1002 (\<lambda>x. x + 1) ex_state
     = (Inl (trap_store_address_misaligned 0x1002), ex_state)"
    using bad m by blast
  have 2: "amo_func ex_env uint32 0x2000 (\<lambda>x. x + 1) ex_state
     = (Inl (trap_store_access_fault 0x2000), log_call (Call_load_slow_path 0x2000 4) ex_state)"
    using miss ex_aligned(2) l by blast
  have 3: "amo_func ex_env uint32 0x2000 (\<lambda>x. x + 1) ex_state
     \<noteq> (Inl (trap_load_access_fault 0x2000), log_call (Call_load_slow_path 0x2000 4) ex_state)"
    using miss by blast
  have 4: "amo_func ex_env uint32 0x2000 (\<lambda>x. x + 1) ex_state
     \<noteq> (Inl (trap_load_address_misaligned 0x2000), log_call (Call_load_slow_path 0x2000 4) ex_state)"
    using miss slow by blast
  show ?thesis
    by (intro conjI) (rule 1 l 2 3 4)+
qed

section \<open>The instruction cache\<close>

lemma bind_res_Inr:
  "bind_res r k = (Inr v, s') \<Longrightarrow> \<exists>u s1. r = (Inr u, s1) \<and> k u s1 = (Inr v, s')"
  by (auto simp add: bind_res_def split: prod.splits sum.splits)

lemma refill_icache_result:
  assumes tr: "translate_insn_addr ev pc s = (Inr iaddr, s1)"
    and re: "refill_icache ev pc idx s = (Inr e, s')"
  shows "\<exists>bits s2 pr.
      fetch_rest ev pc (deref uint16 (mem s1) iaddr)
        (insn_length ev (deref uint16 (mem s1) iaddr)) s1 = (Inr bits, s2)
    \<and> proc s2 = Some pr
    \<and> e = \<lparr>tag = (if interested_in_range ev (mem_to_addr ev iaddr) (mem_to_addr ev iaddr + 1) FETCH
                   then - 1 else pc),
            data = \<lparr>func = decode_insn pr bits, insn = bits\<rparr>\<rparr>
    \<and> icache s' = (icache s2)(idx := e)
    \<and> calls s' = calls s2 @
         (if interested_in_range ev (mem_to_addr ev iaddr) (mem_to_addr ev iaddr + 1) FETCH
          then [Call_trace (mem_to_addr ev iaddr)
                  (insn_length ev (deref uint16 (mem s1) iaddr)) FETCH]
          else [])"
proof -
  let ?bits0 = "deref uint16 (mem s1) iaddr"
  let ?ilen = "insn_length ev ?bits0"
  let ?pa = "mem_to_addr ev iaddr"
  have "refill_icache ev pc idx s
      = bind_res (fetch_rest ev pc ?bits0 ?ilen s1) (fill_entry ev pc idx iaddr ?ilen)"
    unfolding refill_icache_def tr by (simp add: bind_res_def [of "(Inr iaddr, s1)"] Let_def)
  with re have "bind_res (fetch_rest ev pc ?bits0 ?ilen s1) (fill_entry ev pc idx iaddr ?ilen)
      = (Inr e, s')"
    by simp
  from bind_res_Inr [OF this]
  obtain bits s2 where fr: "fetch_rest ev pc ?bits0 ?ilen s1 = (Inr bits, s2)"
    and k: "fill_entry ev pc idx iaddr ?ilen bits s2 = (Inr e, s')"
    by (elim exE conjE) (rule that)
  from k obtain pr where pr: "proc s2 = Some pr"
    by (cases "proc s2") (simp_all add: fill_entry_def)
  from k pr have "e = \<lparr>tag = (if interested_in_range ev ?pa (?pa + 1) FETCH then - 1 else pc),
            data = \<lparr>func = decode_insn pr bits, insn = bits\<rparr>\<rparr>
    \<and> icache s' = (icache s2)(idx := e)
    \<and> calls s' = calls s2 @
         (if interested_in_range ev ?pa (?pa + 1) FETCH then [Call_trace ?pa ?ilen FETCH] else [])"
    by (auto simp add: fill_entry_def Let_def log_call_def split: if_splits)
  with fr pr show ?thesis by blast
qed

text \<open>
  C9, as the code has it. Take an \<^verbatim>\<open>access_icache(pc)\<close> that misses and whose refill
  returns, and let \<open>iaddr\<close> be where the first halfword was fetched from. The entry
  returned is the one now in the slot. When the tracer wants the fetch that begins at the
  physical address of \<open>iaddr\<close>, the tag is \<open>-1\<close>, the last call made is the trace of that
  address with the length of the instruction, and the next \<^verbatim>\<open>access_icache(pc)\<close> refills
  again, unless \<open>pc\<close> is \<open>-1\<close> itself. When the tracer does not want it, the tag is
  \<open>pc\<close> and the next \<^verbatim>\<open>access_icache(pc)\<close> returns the entry and changes nothing.
\<close>

theorem icache_refill_tag:
  "tag (icache s (icache_index ev pc)) \<noteq> pc
   \<and> translate_insn_addr ev pc s = (Inr iaddr, s1)
   \<and> access_icache ev pc s = (Inr e, s') \<longrightarrow>
     e = icache s' (icache_index ev pc)
   \<and> (interested_in_range ev (mem_to_addr ev iaddr) (mem_to_addr ev iaddr + 1) FETCH \<longrightarrow>
         tag (icache s' (icache_index ev pc)) = - 1
       \<and> last (calls s') = Call_trace (mem_to_addr ev iaddr)
                              (insn_length ev (deref uint16 (mem s1) iaddr)) FETCH
       \<and> (pc \<noteq> - 1 \<longrightarrow>
            access_icache ev pc s' = refill_icache ev pc (icache_index ev pc) s'))
   \<and> (\<not> interested_in_range ev (mem_to_addr ev iaddr) (mem_to_addr ev iaddr + 1) FETCH \<longrightarrow>
         tag (icache s' (icache_index ev pc)) = pc
       \<and> access_icache ev pc s' = (Inr (icache s' (icache_index ev pc)), s'))"
proof (rule impI)
  assume h: "tag (icache s (icache_index ev pc)) \<noteq> pc
   \<and> translate_insn_addr ev pc s = (Inr iaddr, s1)
   \<and> access_icache ev pc s = (Inr e, s')"
  then have re: "refill_icache ev pc (icache_index ev pc) s = (Inr e, s')"
    by (simp add: access_icache_def split: if_splits)
  from h have tr: "translate_insn_addr ev pc s = (Inr iaddr, s1)"
    by simp
  from refill_icache_result [OF tr re]
  obtain bits s2 pr where
    "fetch_rest ev pc (deref uint16 (mem s1) iaddr)
        (insn_length ev (deref uint16 (mem s1) iaddr)) s1 = (Inr bits, s2)"
    and "proc s2 = Some pr"
    and e: "e = \<lparr>tag = (if interested_in_range ev (mem_to_addr ev iaddr) (mem_to_addr ev iaddr + 1) FETCH
                   then - 1 else pc),
            data = \<lparr>func = decode_insn pr bits, insn = bits\<rparr>\<rparr>"
    and ic: "icache s' = (icache s2)(icache_index ev pc := e)"
    and ca: "calls s' = calls s2 @
         (if interested_in_range ev (mem_to_addr ev iaddr) (mem_to_addr ev iaddr + 1) FETCH
          then [Call_trace (mem_to_addr ev iaddr)
                  (insn_length ev (deref uint16 (mem s1) iaddr)) FETCH]
          else [])"
    by (elim exE conjE) (rule that)
  from ic have ent: "icache s' (icache_index ev pc) = e" by simp
  show "e = icache s' (icache_index ev pc)
   \<and> (interested_in_range ev (mem_to_addr ev iaddr) (mem_to_addr ev iaddr + 1) FETCH \<longrightarrow>
         tag (icache s' (icache_index ev pc)) = - 1
       \<and> last (calls s') = Call_trace (mem_to_addr ev iaddr)
                              (insn_length ev (deref uint16 (mem s1) iaddr)) FETCH
       \<and> (pc \<noteq> - 1 \<longrightarrow>
            access_icache ev pc s' = refill_icache ev pc (icache_index ev pc) s'))
   \<and> (\<not> interested_in_range ev (mem_to_addr ev iaddr) (mem_to_addr ev iaddr + 1) FETCH \<longrightarrow>
         tag (icache s' (icache_index ev pc)) = pc
       \<and> access_icache ev pc s' = (Inr (icache s' (icache_index ev pc)), s'))"
    using e ca by (simp add: ent access_icache_def)
qed

lemma ex_env_traced_fields:
  "interested_in_range (ex_env_traced P) b e ty = (ty = FETCH \<and> P b)"
  "mem_to_addr (ex_env_traced P) q = q - 0x100000"
  "PC_ALIGN (ex_env_traced P) = 2"
  "insn_length (ex_env_traced P) = insn_length ex_env"
  "interested_in_range ex_env b e ty = False"
  "PC_ALIGN ex_env = 2"
  by (simp_all add: ex_env_traced_def ex_env_def)

lemma ex_insn_length:
  "insn_length ex_env 0x13 = 4" "insn_length ex_env 0 = 2"
  by (simp_all add: ex_env_def)

lemma ex_icache_index:
  "icache_index ex_env 0x1000 = 0"
  "icache_index (ex_env_traced P) 0x1000 = 0"
  "icache_index (ex_env_traced P) (- 1) = 1023"
  by (simp_all add: icache_index_def ex_env_traced_fields ICACHE_ENTRIES_def)

lemma ex_fetch_hits:
  "translate_insn_addr ev 0x1000 ex_state = (Inr 0x101000, ex_state)"
  "translate_insn_addr ev 0x1002 ex_state = (Inr 0x101002, ex_state)"
  by (simp_all add: translate_insn_addr_cases ex_state_tags ex_state_fields(7))

lemma ex_last_tag:
  "tlb_insn_tag ex_state_last (slot_of (- 1)) = vpn_of (- 1)"
  "hit_ptr ex_state_last (- 1) = 0xFFFFF"
  by (simp_all add: PGSHIFT_def tlb_slot_def TLB_ENTRIES_def mask_eq_exp_minus_1
      ex_state_last_def ex_state_def)

lemma ex_fetch_last:
  "translate_insn_addr ev (- 1) ex_state_last = (Inr 0xFFFFF, ex_state_last)"
  by (simp only: translate_insn_addr_cases ex_last_tag if_True refl)

lemma ex_halfwords:
  "deref uint16 (mem ex_state) 0x101000 = 0x13"
  "deref int16 (mem ex_state) 0x101002 = 0"
  "deref uint16 (mem ex_state_last) 0xFFFFF = 0"
  by (simp_all add: deref_def to_reg_def read_bytes_def upt_rec ex_state_fields(8)
      ex_state_last_def)

lemma ex_fetch_rest:
  "insn_length ev = insn_length ex_env \<Longrightarrow>
     fetch_rest ev 0x1000 0x13 (insn_length ev 0x13) ex_state = (Inr 0x13, ex_state)"
  by (simp add: ex_insn_length fetch_rest_def fetch_half_def ex_fetch_hits bind_res_def
      ex_halfwords)

lemma ex_refill:
  "access_icache (ex_env_traced P) 0x1000 ex_state =
     (if P 0x1000
      then (Inr \<lparr>tag = - 1, data = \<lparr>func = 19, insn = 0x13\<rparr>\<rparr>,
            log_call (Call_trace 0x1000 4 FETCH)
              (ex_state\<lparr>icache := (icache ex_state)
                          (0 := \<lparr>tag = - 1, data = \<lparr>func = 19, insn = 0x13\<rparr>\<rparr>)\<rparr>))
      else (Inr \<lparr>tag = 0x1000, data = \<lparr>func = 19, insn = 0x13\<rparr>\<rparr>,
            ex_state\<lparr>icache := (icache ex_state)
                        (0 := \<lparr>tag = 0x1000, data = \<lparr>func = 19, insn = 0x13\<rparr>\<rparr>)\<rparr>))"
proof -
  have miss: "tag (icache ex_state 0) \<noteq> 0x1000"
    by (simp add: ex_state_def)
  have fr: "fetch_rest (ex_env_traced P) 0x1000 0x13 4 ex_state = (Inr 0x13, ex_state)"
    using ex_fetch_rest [of "ex_env_traced P"] by (simp add: ex_env_traced_fields ex_insn_length)
  have dec: "decode_insn ex_proc 0x13 = 19"
    by (simp add: ex_proc_def)
  show ?thesis
    using miss
    by (simp add: access_icache_def ex_icache_index refill_icache_def ex_fetch_hits bind_res_def
        ex_halfwords ex_env_traced_fields ex_insn_length fr fill_entry_def ex_state_fields(1)
        dec Let_def log_call_def)
qed

theorem icache_refill_tag_witness:
  "tag (icache (snd (access_icache (ex_env_traced (\<lambda>b. b = 0x1000)) 0x1000 ex_state)) 0) = - 1
   \<and> last (calls (snd (access_icache (ex_env_traced (\<lambda>b. b = 0x1000)) 0x1000 ex_state)))
       = Call_trace 0x1000 4 FETCH
   \<and> access_icache (ex_env_traced (\<lambda>b. b = 0x1000)) 0x1000
         (snd (access_icache (ex_env_traced (\<lambda>b. b = 0x1000)) 0x1000 ex_state))
       = refill_icache (ex_env_traced (\<lambda>b. b = 0x1000)) 0x1000 0
           (snd (access_icache (ex_env_traced (\<lambda>b. b = 0x1000)) 0x1000 ex_state))
   \<and> tag (icache (snd (access_icache (ex_env_traced (\<lambda>b. False)) 0x1000 ex_state)) 0) = 0x1000
   \<and> access_icache (ex_env_traced (\<lambda>b. False)) 0x1000
         (snd (access_icache (ex_env_traced (\<lambda>b. False)) 0x1000 ex_state))
       = (Inr \<lparr>tag = 0x1000, data = \<lparr>func = 19, insn = 0x13\<rparr>\<rparr>,
          snd (access_icache (ex_env_traced (\<lambda>b. False)) 0x1000 ex_state))"
proof -
  let ?E1 = "ex_env_traced (\<lambda>b. b = 0x1000)"
  let ?E0 = "ex_env_traced (\<lambda>b. False)"
  obtain e1 S1 where a1: "access_icache ?E1 0x1000 ex_state = (Inr e1, S1)"
    by (simp add: ex_refill)
  obtain e0 S0 where a0: "access_icache ?E0 0x1000 ex_state = (Inr e0, S0)"
    by (simp add: ex_refill)
  have miss: "tag (icache ex_state (icache_index ev 0x1000)) \<noteq> 0x1000" for ev
    by (simp add: ex_state_def)
  have i1: "interested_in_range ?E1 (mem_to_addr ?E1 0x101000) (mem_to_addr ?E1 0x101000 + 1) FETCH"
    and i0: "\<not> interested_in_range ?E0 (mem_to_addr ?E0 0x101000) (mem_to_addr ?E0 0x101000 + 1) FETCH"
    by (simp_all add: ex_env_traced_fields)
  have ne: "(0x1000 :: reg_t) \<noteq> - 1"
    by simp
  from icache_refill_tag [of ex_state ?E1 "0x1000" "0x101000" ex_state e1 S1]
    miss [of ?E1] ex_fetch_hits(1) [of ?E1] a1 i1 ne
  have t1: "tag (icache S1 (icache_index ?E1 0x1000)) = - 1"
    and c1: "last (calls S1) = Call_trace (mem_to_addr ?E1 0x101000)
                              (insn_length ?E1 (deref uint16 (mem ex_state) 0x101000)) FETCH"
    and n1: "access_icache ?E1 0x1000 S1 = refill_icache ?E1 0x1000 (icache_index ?E1 0x1000) S1"
    by blast+
  from icache_refill_tag [of ex_state ?E0 "0x1000" "0x101000" ex_state e0 S0]
    miss [of ?E0] ex_fetch_hits(1) [of ?E0] a0 i0
  have t0: "tag (icache S0 (icache_index ?E0 0x1000)) = 0x1000"
    and n0: "access_icache ?E0 0x1000 S0 = (Inr (icache S0 (icache_index ?E0 0x1000)), S0)"
    and e0: "e0 = icache S0 (icache_index ?E0 0x1000)"
    by blast+
  have e0': "e0 = \<lparr>tag = 0x1000, data = \<lparr>func = 19, insn = 0x13\<rparr>\<rparr>"
    using a0 by (simp add: ex_refill)
  show ?thesis
    using t1 c1 n1 t0 n0 e0 e0'
    by (simp add: a1 a0 ex_icache_index ex_env_traced_fields ex_halfwords ex_insn_length)
qed

text \<open>
  The claim as it was stated speaks of any fetched halfword, and of every \<open>pc\<close>. The
  instruction at \<open>0x1000\<close> has two halfwords, and the tracer wants the second one, at
  physical address \<open>0x1002\<close>, and not the first: the tag is \<open>0x1000\<close>, nothing is traced,
  and the next access hits. And at \<open>pc = -1\<close>, with a tracer that wants every fetch, the
  refill sets the tag to \<open>-1\<close>, which is \<open>pc\<close>: the next access hits.
\<close>

theorem icache_refill_tag_counterexample:
  "insn_length (ex_env_traced (\<lambda>b. b = 0x1002)) (deref uint16 (mem ex_state) 0x101000) = 4
   \<and> translate_insn_addr (ex_env_traced (\<lambda>b. b = 0x1002)) (0x1000 + 2) ex_state
       = (Inr 0x101002, ex_state)
   \<and> interested_in_range (ex_env_traced (\<lambda>b. b = 0x1002))
        (mem_to_addr (ex_env_traced (\<lambda>b. b = 0x1002)) 0x101002)
        (mem_to_addr (ex_env_traced (\<lambda>b. b = 0x1002)) 0x101002 + 1) FETCH
   \<and> tag (icache ex_state (icache_index (ex_env_traced (\<lambda>b. b = 0x1002)) 0x1000)) \<noteq> 0x1000
   \<and> access_icache (ex_env_traced (\<lambda>b. b = 0x1002)) 0x1000 ex_state
       = (Inr \<lparr>tag = 0x1000, data = \<lparr>func = 19, insn = 0x13\<rparr>\<rparr>,
          ex_state\<lparr>icache := (icache ex_state)
                      (0 := \<lparr>tag = 0x1000, data = \<lparr>func = 19, insn = 0x13\<rparr>\<rparr>)\<rparr>)
   \<and> access_icache (ex_env_traced (\<lambda>b. b = 0x1002)) 0x1000
         (ex_state\<lparr>icache := (icache ex_state)
                      (0 := \<lparr>tag = 0x1000, data = \<lparr>func = 19, insn = 0x13\<rparr>\<rparr>)\<rparr>)
       = (Inr \<lparr>tag = 0x1000, data = \<lparr>func = 19, insn = 0x13\<rparr>\<rparr>,
          ex_state\<lparr>icache := (icache ex_state)
                      (0 := \<lparr>tag = 0x1000, data = \<lparr>func = 19, insn = 0x13\<rparr>\<rparr>)\<rparr>)
   \<and> tag (icache ex_state_last (icache_index (ex_env_traced (\<lambda>b. True)) (- 1))) \<noteq> - 1
   \<and> access_icache (ex_env_traced (\<lambda>b. True)) (- 1) ex_state_last
       = (Inr \<lparr>tag = - 1, data = \<lparr>func = 0, insn = 0\<rparr>\<rparr>,
          log_call (Call_trace (- 1) 2 FETCH)
            (ex_state_last\<lparr>icache := (icache ex_state_last)
                             (1023 := \<lparr>tag = - 1, data = \<lparr>func = 0, insn = 0\<rparr>\<rparr>)\<rparr>))
   \<and> access_icache (ex_env_traced (\<lambda>b. True)) (- 1)
         (log_call (Call_trace (- 1) 2 FETCH)
            (ex_state_last\<lparr>icache := (icache ex_state_last)
                             (1023 := \<lparr>tag = - 1, data = \<lparr>func = 0, insn = 0\<rparr>\<rparr>)\<rparr>))
       = (Inr \<lparr>tag = - 1, data = \<lparr>func = 0, insn = 0\<rparr>\<rparr>,
          log_call (Call_trace (- 1) 2 FETCH)
            (ex_state_last\<lparr>icache := (icache ex_state_last)
                             (1023 := \<lparr>tag = - 1, data = \<lparr>func = 0, insn = 0\<rparr>\<rparr>)\<rparr>))"
proof -
  let ?E2 = "ex_env_traced (\<lambda>b. b = 0x1002)"
  let ?E3 = "ex_env_traced (\<lambda>b. True)"
  have a: "access_icache ?E2 0x1000 ex_state
       = (Inr \<lparr>tag = 0x1000, data = \<lparr>func = 19, insn = 0x13\<rparr>\<rparr>,
          ex_state\<lparr>icache := (icache ex_state)
                      (0 := \<lparr>tag = 0x1000, data = \<lparr>func = 19, insn = 0x13\<rparr>\<rparr>)\<rparr>)"
    by (simp add: ex_refill)
  have b: "access_icache ?E2 0x1000
         (ex_state\<lparr>icache := (icache ex_state)
                      (0 := \<lparr>tag = 0x1000, data = \<lparr>func = 19, insn = 0x13\<rparr>\<rparr>)\<rparr>)
       = (Inr \<lparr>tag = 0x1000, data = \<lparr>func = 19, insn = 0x13\<rparr>\<rparr>,
          ex_state\<lparr>icache := (icache ex_state)
                      (0 := \<lparr>tag = 0x1000, data = \<lparr>func = 19, insn = 0x13\<rparr>\<rparr>)\<rparr>)"
    by (simp add: access_icache_def ex_icache_index)
  have m: "tag (icache ex_state_last (icache_index ?E3 (- 1))) \<noteq> - 1"
    by (simp add: ex_icache_index ex_state_last_def)
  have p: "proc ex_state_last = Some ex_proc"
    by (simp add: ex_state_last_def ex_state_fields)
  have fr: "fetch_rest ?E3 (- 1) 0 2 ex_state_last = (Inr 0, ex_state_last)"
    by (simp add: fetch_rest_def to_reg_def)
  have c: "access_icache ?E3 (- 1) ex_state_last
       = (Inr \<lparr>tag = - 1, data = \<lparr>func = 0, insn = 0\<rparr>\<rparr>,
          log_call (Call_trace (- 1) 2 FETCH)
            (ex_state_last\<lparr>icache := (icache ex_state_last)
                             (1023 := \<lparr>tag = - 1, data = \<lparr>func = 0, insn = 0\<rparr>\<rparr>)\<rparr>))"
    using m
    by (simp add: access_icache_def ex_icache_index refill_icache_def ex_fetch_last bind_res_def
        ex_halfwords ex_env_traced_fields ex_insn_length fr fill_entry_def p ex_proc_def
        Let_def)
  have d: "access_icache ?E3 (- 1)
         (log_call (Call_trace (- 1) 2 FETCH)
            (ex_state_last\<lparr>icache := (icache ex_state_last)
                             (1023 := \<lparr>tag = - 1, data = \<lparr>func = 0, insn = 0\<rparr>\<rparr>)\<rparr>))
       = (Inr \<lparr>tag = - 1, data = \<lparr>func = 0, insn = 0\<rparr>\<rparr>,
          log_call (Call_trace (- 1) 2 FETCH)
            (ex_state_last\<lparr>icache := (icache ex_state_last)
                             (1023 := \<lparr>tag = - 1, data = \<lparr>func = 0, insn = 0\<rparr>\<rparr>)\<rparr>))"
    by (simp add: access_icache_def ex_icache_index)
  have pre: "insn_length ?E2 (deref uint16 (mem ex_state) 0x101000) = 4"
    "translate_insn_addr ?E2 (0x1000 + 2) ex_state = (Inr 0x101002, ex_state)"
    "interested_in_range ?E2 (mem_to_addr ?E2 0x101002) (mem_to_addr ?E2 0x101002 + 1) FETCH"
    by (simp_all add: ex_env_traced_fields ex_halfwords ex_insn_length ex_fetch_hits)
  have pre4: "tag (icache ex_state (icache_index ?E2 0x1000)) \<noteq> 0x1000"
    by (simp add: ex_icache_index ex_state_def)
  show ?thesis
    by (intro conjI) (rule pre pre4 a b m c d)+
qed

section \<open>The bus\<close>

subsection \<open>The order of negated keys\<close>

lemma uint_neg:
  fixes x :: reg_t
  assumes "x \<noteq> 0"
  shows "uint (- x) = 2 ^ 64 - uint x"
proof -
  have "uint x \<noteq> 0"
    using assms by (simp add: uint_0_iff)
  moreover have "0 \<le> uint x"
    by simp
  ultimately have pos: "0 < uint x"
    by linarith
  have lt: "uint x < 2 ^ 64"
    using uint_bounded [of x] by simp
  have "uint (- x) = (- uint x) mod 2 ^ 64"
    by (simp add: uint_word_ariths)
  also have "\<dots> = (2 ^ 64 - uint x) mod 2 ^ 64"
    by (metis mod_add_self2 uminus_add_conv_diff)
  also have "\<dots> = 2 ^ 64 - uint x"
    using pos lt by (intro mod_pos_pos_trivial) simp_all
  finally show ?thesis .
qed

lemma neg_le_iff:
  fixes x y :: reg_t
  assumes "x \<noteq> 0" "y \<noteq> 0"
  shows "- x \<le> y \<longleftrightarrow> - y \<le> x"
  using uint_neg [OF assms(1)] uint_neg [OF assms(2)]
  by (simp add: word_le_def) linarith

lemma neg_less_iff:
  fixes x y :: reg_t
  assumes "x \<noteq> 0" "y \<noteq> 0"
  shows "- x < - y \<longleftrightarrow> y < x"
  using uint_neg [OF assms(1)] uint_neg [OF assms(2)]
  by (simp add: word_less_def)

subsection \<open>Dispatch away from zero\<close>

text \<open>
  When no device is registered at base 0 and the address is not 0, \<^verbatim>\<open>lower_bound\<close> on the
  negated keys finds the device with the greatest base not exceeding the address, and
  the device gets the offset from its base; \<^verbatim>\<open>add_device\<close> keeps the entries in the order
  this needs.
\<close>

lemma greatest_base_mem:
  "greatest_base a xs = Some bd \<Longrightarrow> bd \<in> set xs"
proof (induction xs arbitrary: bd)
  case Nil
  then show ?case by simp
next
  case (Cons x xs)
  obtain b d where x: "x = (b, d)" by (cases x)
  show ?case
  proof (cases "greatest_base a xs")
    case None
    with Cons.prems x show ?thesis by (simp split: if_splits)
  next
    case (Some r)
    with Cons.prems x Cons.IH [of r] show ?thesis
      by (cases r) (auto split: if_splits)
  qed
qed

lemma lower_bound_greatest_base:
  assumes "sorted_wrt (<) (map fst es)" and "\<forall>k \<in> set (map fst es). k \<noteq> 0" and "a \<noteq> 0"
  shows "map_option (\<lambda>(k, d). (- k, d)) (lower_bound (- a) es) = greatest_base a (bases es)"
  using assms(1,2)
proof (induction es)
  case Nil
  then show ?case by (simp add: bases_def)
next
  case (Cons e es)
  obtain k d where e: "e = (k, d)" by (cases e)
  from Cons.prems e have k0: "k \<noteq> 0" and above: "\<forall>k' \<in> set (map fst es). k < k' \<and> k' \<noteq> 0"
    and IH: "map_option (\<lambda>(k, d). (- k, d)) (lower_bound (- a) es) = greatest_base a (bases es)"
    using Cons.IH by auto
  have le: "- a \<le> k \<longleftrightarrow> - k \<le> a"
    using neg_le_iff [OF assms(3) k0] .
  have bs: "bases ((k, d) # es) = (- k, d) # bases es"
    by (simp add: bases_def)
  show ?case
  proof (cases "greatest_base a (bases es)")
    case None
    with IH have "lower_bound (- a) es = None" by simp
    with None show ?thesis by (simp add: bs e le)
  next
    case (Some r)
    obtain b' d' where r: "r = (b', d')" by (cases r)
    from greatest_base_mem [OF Some] r obtain k' where "k' \<in> set (map fst es)" and "b' = - k'"
      by (force simp add: bases_def)
    with above k0 have "b' < - k"
      using neg_less_iff [of k' k] by auto
    with Some r IH show ?thesis by (simp add: bs e le)
  qed
qed

lemma bus_load_nonzero:
  assumes "sorted_wrt (<) (map fst devices)" and "\<forall>k \<in> set (map fst devices). k \<noteq> 0"
    and "a \<noteq> 0"
  shows "bus_load devices a n bytes =
     (case greatest_base a (bases devices) of
        None \<Rightarrow> (False, bytes)
      | Some (b, dev) \<Rightarrow> dev_load dev (a - b) n bytes)"
  using lower_bound_greatest_base [OF assms, symmetric]
  by (cases "lower_bound (- a) devices") (auto simp add: bus_load_def)

lemma bus_store_nonzero:
  assumes "sorted_wrt (<) (map fst devices)" and "\<forall>k \<in> set (map fst devices). k \<noteq> 0"
    and "a \<noteq> 0"
  shows "bus_store devices a n bytes =
     (case greatest_base a (bases devices) of
        None \<Rightarrow> (False, [])
      | Some (b, dev) \<Rightarrow> dev_store dev (a - b) n bytes)"
  using lower_bound_greatest_base [OF assms, symmetric]
  by (cases "lower_bound (- a) devices") (auto simp add: bus_store_def)

lemma map_assign_keys:
  "fst ` set (map_assign k d es) = insert k (fst ` set es)"
  by (induction es) (force split: if_splits)+

lemma map_assign_sorted:
  "sorted_wrt (<) (map fst es) \<Longrightarrow> sorted_wrt (<) (map fst (map_assign k d es))"
proof (induction es)
  case Nil
  then show ?case by simp
next
  case (Cons e es)
  obtain k' d' where e: "e = (k', d')" by (cases e)
  from Cons.prems e have above: "\<forall>x \<in> set (map fst es). k' < x"
    and rest: "sorted_wrt (<) (map fst es)"
    by auto
  show ?case
  proof (cases "k < k'")
    case True
    with above rest show ?thesis by (auto simp add: e)
  next
    case False
    show ?thesis
    proof (cases "k = k'")
      case True
      with above rest show ?thesis by (simp add: e)
    next
      case ne: False
      with False have lt: "k' < k" by simp
      have "\<forall>x \<in> fst ` set (map_assign k d es). k' < x"
        using above lt by (simp add: map_assign_keys)
      then have "\<forall>x \<in> set (map_assign k d es). k' < fst x"
        by simp
      with Cons.IH [OF rest] False ne show ?thesis
        by (simp add: e)
    qed
  qed
qed

lemma add_device_invariant:
  "sorted_wrt (<) (map fst devices) \<Longrightarrow> \<forall>k \<in> set (map fst devices). k \<noteq> 0 \<Longrightarrow> a \<noteq> 0
     \<Longrightarrow> sorted_wrt (<) (map fst (add_device a dev devices))
         \<and> (\<forall>k \<in> set (map fst (add_device a dev devices)). k \<noteq> 0)"
proof -
  assume s: "sorted_wrt (<) (map fst devices)" and z: "\<forall>k \<in> set (map fst devices). k \<noteq> 0"
    and a: "a \<noteq> 0"
  have "\<forall>k \<in> fst ` set (map_assign (- a) dev devices). k \<noteq> 0"
    using z a by (simp add: map_assign_keys)
  then show ?thesis
    using s by (simp add: add_device_def map_assign_sorted)
qed

subsection \<open>Dispatch at zero\<close>

text \<open>
  C10 fails on the code where a zero is negated. With the UART registered at base 0, a
  load or a store at address 4 should reach it with offset 4; the bus returns false and
  calls no device, since the key \<open>- 0 = 0\<close> is below \<open>- 4\<close>. With the only device at base
  \<open>0x1000\<close>, a load or a store at address 0 should return false, no base being at or below
  0; the bus calls the device, with the offset \<open>0 - 0x1000\<close>, since every key is at or
  above \<open>- 0 = 0\<close>.
\<close>

theorem bus_zero_not_dispatched:
  "greatest_base 4 (bases (add_device 0 (uart_dev_t False) [])) = Some (0, uart_dev_t False)
   \<and> dev_load (uart_dev_t False) (4 - 0) 1 [0x55] = (True, [0xFF])
   \<and> bus_load (add_device 0 (uart_dev_t False) []) 4 1 [0x55] = (False, [0x55])
   \<and> dev_store (uart_dev_t False) (4 - 0) 1 [0x55] = (True, [])
   \<and> bus_store (add_device 0 (uart_dev_t False) []) 4 1 [0x55] = (False, [])
   \<and> greatest_base 0 (bases (add_device 0x1000 ex_probe [])) = None
   \<and> bus_load (add_device 0x1000 ex_probe []) 0 8 [] 
       = (True, [0x00, 0xF0, 0xFF, 0xFF, 0xFF, 0xFF, 0xFF, 0xFF])
   \<and> bus_load (add_device 0x1000 ex_probe []) 0 8 []
       = dev_load ex_probe (0 - 0x1000) 8 []
   \<and> bus_store (add_device 0x1000 ex_probe []) 0 8 []
       = dev_store ex_probe (0 - 0x1000) 8 []"
  by (simp add: add_device_def bases_def bus_load_def bus_store_def uart_dev_t_def uart_load_def
      uart_store_def ex_probe_def bytes_of_def upt_rec)

end
